theory Spec2Isabelle
  imports Complex_Main
begin

section \<open>JavaScript values\<close>

text \<open>
  A JavaScript string is a sequence of UTF-16 code units; \<open>js\<close> turns an ASCII literal
  into one. A value typed \<open>T | null\<close> or an optional field is an \<open>option\<close>.
\<close>

type_synonym jsstring = "nat list"

definition js :: "string \<Rightarrow> jsstring" where
  "js s = map of_char s"

text \<open>
  A string or \<open>null\<close> used as a condition: \<open>null\<close>, \<open>undefined\<close> and the empty
  string are falsy.
\<close>

definition truthy :: "jsstring option \<Rightarrow> bool" where
  "truthy v = (case v of None \<Rightarrow> False | Some s \<Rightarrow> s \<noteq> [])"

text \<open>
  \<open>String.prototype.trim\<close> strips the code units that are WhiteSpace or
  LineTerminator: TAB, LF, VT, FF, CR, SP, NBSP, U+1680, U+2000 to U+200A, U+2028,
  U+2029, U+202F, U+205F, U+3000 and U+FEFF.
\<close>

definition is_space :: "nat \<Rightarrow> bool" where
  "is_space c \<longleftrightarrow>
     (0x09 \<le> c \<and> c \<le> 0x0D) \<or> c = 0x20 \<or> c = 0xA0 \<or> c = 0x1680 \<or>
     (0x2000 \<le> c \<and> c \<le> 0x200A) \<or> c = 0x2028 \<or> c = 0x2029 \<or> c = 0x202F \<or>
     c = 0x205F \<or> c = 0x3000 \<or> c = 0xFEFF"

definition trim :: "jsstring \<Rightarrow> jsstring" where
  "trim s = rev (dropWhile is_space (rev (dropWhile is_space s)))"

text \<open>\<open>xs[i]\<close>: \<open>undefined\<close> out of range.\<close>

definition at_index :: "'a list \<Rightarrow> nat \<Rightarrow> 'a option" where
  "at_index xs i = (if i < length xs then Some (xs ! i) else None)"

section \<open>Numbers\<close>

text \<open>
  A JavaScript \<open>number\<close> is an IEEE 754 double: a finite value, given by the
  rational it denotes, or one of the three non-finite values. The two zeros are one
  value here; the use-cases never tell them apart.
\<close>

datatype number = Finite rat | NaN | Infinity | NegInfinity

text \<open>The number of binary digits of a natural number.\<close>

fun bit_length :: "nat \<Rightarrow> nat" where
  "bit_length n = (if n = 0 then 0 else Suc (bit_length (n div 2)))"

declare bit_length.simps [simp del]

text \<open>For \<open>a > 0\<close>, the integer \<open>e\<close> with \<open>pow2 e \<le> a < pow2 (e + 1)\<close>.\<close>

definition binary_exponent :: "rat \<Rightarrow> int" where
  "binary_exponent a =
     (if 1 \<le> a then int (bit_length (nat \<lfloor>a\<rfloor>)) - 1
      else - int (bit_length (nat (\<lceil>1 / a\<rceil> - 1))))"

definition pow2 :: "int \<Rightarrow> rat" where
  "pow2 k = (if 0 \<le> k then 2 ^ nat k else 1 / 2 ^ nat (- k))"

text \<open>The integer nearest to \<open>y\<close>, the even one on a tie; \<open>f\<close> is the floor of \<open>y\<close>.\<close>

definition nearest_even :: "rat \<Rightarrow> int \<Rightarrow> int" where
  "nearest_even y f =
     (if y - of_int f < 1 / 2 then f
      else if 1 / 2 < y - of_int f then f + 1
      else if even f then f else f + 1)"

definition round_half_even :: "rat \<Rightarrow> int" where
  "round_half_even y = nearest_even y \<lfloor>y\<rfloor>"

text \<open>
  The distance between neighbouring doubles around \<open>a > 0\<close>: 53 significant bits, and
  no exponent below -1022 (subnormal numbers are spaced like the smallest normal ones).
\<close>

definition spacing :: "rat \<Rightarrow> rat" where
  "spacing a = pow2 (max (binary_exponent a) (- 1022) - 52)"

definition round_to_spacing :: "rat \<Rightarrow> rat \<Rightarrow> rat" where
  "round_to_spacing a u = of_int (round_half_even (a / u)) * u"

text \<open>A magnitude that rounds to 2 to the power 1024 or more overflows to an infinity.\<close>

definition or_infinity :: "bool \<Rightarrow> rat \<Rightarrow> number" where
  "or_infinity positive r =
     (if 2 ^ 1024 \<le> r then (if positive then Infinity else NegInfinity)
      else Finite (if positive then r else - r))"

text \<open>
  The double nearest to a real result (round to nearest, ties to even), as every
  arithmetic operation and every conversion from a decimal string returns it.
\<close>

definition fl :: "rat \<Rightarrow> number" where
  "fl x =
     (if x = 0 then Finite 0
      else or_infinity (0 < x) (round_to_spacing \<bar>x\<bar> (spacing \<bar>x\<bar>)))"

text \<open>\<open>a + b\<close>\<close>

fun num_add :: "number \<Rightarrow> number \<Rightarrow> number" where
  "num_add NaN b = NaN"
| "num_add a NaN = NaN"
| "num_add Infinity NegInfinity = NaN"
| "num_add NegInfinity Infinity = NaN"
| "num_add Infinity b = Infinity"
| "num_add a Infinity = Infinity"
| "num_add NegInfinity b = NegInfinity"
| "num_add a NegInfinity = NegInfinity"
| "num_add (Finite a) (Finite b) = fl (a + b)"

text \<open>\<open>a / b\<close>; a zero divisor is the positive zero.\<close>

fun num_div :: "number \<Rightarrow> number \<Rightarrow> number" where
  "num_div NaN b = NaN"
| "num_div a NaN = NaN"
| "num_div (Finite a) (Finite b) =
     (if b = 0 then (if a = 0 then NaN else if 0 < a then Infinity else NegInfinity)
      else fl (a / b))"
| "num_div (Finite a) b = Finite 0"
| "num_div Infinity (Finite b) = (if 0 \<le> b then Infinity else NegInfinity)"
| "num_div NegInfinity (Finite b) = (if 0 \<le> b then NegInfinity else Infinity)"
| "num_div a b = NaN"

text \<open>\<open>a > c\<close> for a finite constant \<open>c\<close>; every comparison with \<open>NaN\<close> is false.\<close>

fun greater_than :: "number \<Rightarrow> rat \<Rightarrow> bool" where
  "greater_than (Finite x) c = (c < x)"
| "greater_than Infinity c = True"
| "greater_than NaN c = False"
| "greater_than NegInfinity c = False"

text \<open>\<open>Number.isFinite(value)\<close> and \<open>value < 0\<close>.\<close>

fun isFinite :: "number \<Rightarrow> bool" where
  "isFinite (Finite x) = True"
| "isFinite NaN = False"
| "isFinite Infinity = False"
| "isFinite NegInfinity = False"

fun less_than_zero :: "number \<Rightarrow> bool" where
  "less_than_zero (Finite x) = (x < 0)"
| "less_than_zero NaN = False"
| "less_than_zero Infinity = False"
| "less_than_zero NegInfinity = True"

text \<open>\<open>Math.min\<close> and \<open>Math.max\<close> of two numbers: \<open>NaN\<close> when either is \<open>NaN\<close>.\<close>

fun Math_min :: "number \<Rightarrow> number \<Rightarrow> number" where
  "Math_min NaN b = NaN"
| "Math_min a NaN = NaN"
| "Math_min NegInfinity b = NegInfinity"
| "Math_min a NegInfinity = NegInfinity"
| "Math_min Infinity b = b"
| "Math_min a Infinity = a"
| "Math_min (Finite a) (Finite b) = Finite (min a b)"

fun Math_max :: "number \<Rightarrow> number \<Rightarrow> number" where
  "Math_max NaN b = NaN"
| "Math_max a NaN = NaN"
| "Math_max Infinity b = Infinity"
| "Math_max a Infinity = Infinity"
| "Math_max NegInfinity b = b"
| "Math_max a NegInfinity = a"
| "Math_max (Finite a) (Finite b) = Finite (max a b)"

text \<open>
  \<open>Number(x.toFixed(2))\<close>. \<open>toFixed\<close> prints a non-finite value by name and a value
  of magnitude \<open>10 ^ 21\<close> or more as \<open>ToString\<close> does, and \<open>Number\<close> reads both
  back unchanged. Otherwise it prints \<open>n / 100\<close> for the integer \<open>n\<close> that makes
  \<open>n / 100\<close> nearest to the magnitude, the larger \<open>n\<close> on a tie, with the sign put
  back, and \<open>Number\<close> reads the nearest double.
\<close>

fun toFixed2 :: "number \<Rightarrow> number" where
  "toFixed2 (Finite x) =
     (if 10 ^ 21 \<le> \<bar>x\<bar> then Finite x
      else if x < 0 then fl (- (of_int \<lfloor>(- x) * 100 + 1 / 2\<rfloor> / 100))
      else fl (of_int \<lfloor>x * 100 + 1 / 2\<rfloor> / 100))"
| "toFixed2 NaN = NaN"
| "toFixed2 Infinity = Infinity"
| "toFixed2 NegInfinity = NegInfinity"

text \<open>
  \<open>xs.slice(0, stop)\<close>: \<open>stop\<close> is truncated to an integer (\<open>NaN\<close> to 0), a
  negative one counts from the end of the list, and the result stops at the end of the
  list.
\<close>

definition slice_from_start :: "'a list \<Rightarrow> number \<Rightarrow> 'a list" where
  "slice_from_start xs stop =
     (case stop of
        NaN \<Rightarrow> []
      | Infinity \<Rightarrow> xs
      | NegInfinity \<Rightarrow> []
      | Finite x \<Rightarrow>
          let k = (if 0 \<le> x then \<lfloor>x\<rfloor> else \<lceil>x\<rceil>)
          in if k < 0 then take (nat (int (length xs) + k)) xs else take (nat k) xs)"

section \<open>Data model (domain/entities/session.ts)\<close>

datatype SessionStatus = in_progress | completed

datatype PromptType = question_prompt | follow_up | completed_prompt

record TimingSummary =
  avgResponseDelaySec :: number
  longPausesCount :: nat
  totalTurns :: nat

record CorrectionItem =
  original :: jsstring
  corrected :: jsstring
  reason :: jsstring

record ImprovedBestAnswer =
  iba_question :: jsstring
  iba_answer :: jsstring

record InterviewFeedback =
  timingSummary :: TimingSummary
  corrections :: "CorrectionItem list"
  improvedBestAnswer :: ImprovedBestAnswer
  interviewTips :: "jsstring list"

record SessionTurn =
  question :: jsstring
  answer :: jsstring
  followUpQuestion :: "jsstring option"
  followUpAnswer :: "jsstring option"
  mainResponseDelaySec :: number
  followUpResponseDelaySec :: "number option"

record InterviewSession =
  session_id :: jsstring
  createdAt :: jsstring
  status :: SessionStatus
  allowFollowUps :: bool
  questions :: "jsstring list"
  questionIndex :: nat
  awaitingFollowUp :: bool
  pendingFollowUpQuestion :: "jsstring option"
  turns :: "SessionTurn list"
  result :: "InterviewFeedback option"

section \<open>Timing aggregation (application/use-cases/helpers.ts)\<close>

text \<open>
  The callback of \<open>turns.flatMap\<close>: the main delay, then the follow-up delay when it
  is a number (\<open>NaN\<close> is one).
\<close>

definition turn_delays :: "SessionTurn \<Rightarrow> number list" where
  "turn_delays turn =
     (let items = [mainResponseDelaySec turn]
      in case followUpResponseDelaySec turn of
           Some d \<Rightarrow> items @ [d]
         | None \<Rightarrow> items)"

definition flatten_delays :: "SessionTurn list \<Rightarrow> number list" where
  "flatten_delays ts = concat (map turn_delays ts)"

text \<open>
  \<open>delays.reduce((a, b) => a + b, 0)\<close> adds from the left, each sum rounded to a
  double; the quotient by \<open>delays.length\<close> is rounded again.
\<close>

definition computeTimingSummary :: "SessionTurn list \<Rightarrow> TimingSummary" where
  "computeTimingSummary ts =
     (let delays = flatten_delays ts;
          avg = (if length delays \<noteq> 0
                 then toFixed2 (num_div (foldl (\<lambda>a b. num_add a b) (Finite 0) delays)
                                        (Finite (of_nat (length delays))))
                 else Finite 0);
          longPauses = length (filter (\<lambda>delay. greater_than delay 4) delays)
      in \<lparr> avgResponseDelaySec = avg,
           longPausesCount = longPauses,
           totalTurns = length delays \<rparr>)"

section \<open>Errors\<close>

text \<open>
  The use-cases throw \<open>NotFoundError\<close> and \<open>ValidationError\<close>, each with a message.
  An exception thrown by a collaborator (the coach or the speech-to-text service) is
  neither caught nor translated by the use-cases: it is \<open>OracleFailure\<close>.
\<close>

datatype error = NotFoundError string | ValidationError string | OracleFailure

section \<open>Collaborators (domain/services, domain/repositories)\<close>

record InterviewerReply =
  replyText :: jsstring
  reply_followUpQuestion :: "jsstring option"

record TranscriptTurn =
  questionNumber :: nat
  tt_question :: jsstring
  tt_answer :: jsstring
  tt_followUpQuestion :: "jsstring option"
  tt_followUpAnswer :: "jsstring option"

text \<open>
  The services are interfaces: an implementation is a record of functions, and a call
  that throws returns \<open>None\<close>.
\<close>

record InterviewCoachService =
  generateInterviewerReply :: "jsstring \<Rightarrow> jsstring \<Rightarrow> InterviewerReply option"
  generateFollowUpClose ::
    "jsstring \<Rightarrow> jsstring \<Rightarrow> jsstring \<Rightarrow> jsstring \<Rightarrow> jsstring option"
  generateFeedback :: "TimingSummary \<Rightarrow> TranscriptTurn list \<Rightarrow> InterviewFeedback option"

type_synonym Buffer = "nat list"

record SpeechToTextService =
  transcribe :: "Buffer \<Rightarrow> jsstring \<Rightarrow> jsstring option"

text \<open>
  \<open>InMemorySessionRepository\<close>: a map from session id to session. Every operation
  stores or returns a \<open>structuredClone\<close>, so the stored sessions are values that
  share nothing with the caller's object.
\<close>

type_synonym SessionRepository = "jsstring \<rightharpoonup> InterviewSession"

definition create :: "InterviewSession \<Rightarrow> SessionRepository \<Rightarrow> SessionRepository" where
  "create session sessions = sessions(session_id session \<mapsto> session)"

definition findById :: "jsstring \<Rightarrow> SessionRepository \<Rightarrow> InterviewSession option" where
  "findById sessionId sessions = sessions sessionId"

definition save :: "InterviewSession \<Rightarrow> SessionRepository \<Rightarrow> SessionRepository" where
  "save session sessions = sessions(session_id session \<mapsto> session)"

section \<open>Question catalog (domain/entities/question-bank.ts)\<close>

definition QUESTION_BANK :: "jsstring list" where
  "QUESTION_BANK =
     [js ''Tell me about yourself and your current backend focus.'',
      js ''Describe a challenging production incident you handled. What did you do?'',
      js ''How would you design a URL shortener service?'',
      js ''How do you ensure reliability in a distributed system?'',
      js ''Explain the difference between horizontal and vertical scaling.'',
      js ''How do you diagnose slow database queries in production?'',
      js ''Describe a time you disagreed with a teammate and how you resolved it.'',
      js ''What tradeoffs would you consider when introducing caching?'',
      js ''How would you make an API backward compatible over time?'',
      js ''Why are you interested in this role and what value would you bring?'']"

section \<open>Creating a session (application/use-cases/create-session.ts)\<close>

record CreateSessionInput =
  questionCount :: "number option"
  input_allowFollowUps :: "bool option"

text \<open>\<open>randomUUID()\<close> and \<open>new Date().toISOString()\<close> are inputs of the model.\<close>

definition CreateSession_execute ::
  "jsstring \<Rightarrow> jsstring \<Rightarrow> CreateSessionInput \<Rightarrow> SessionRepository
     \<Rightarrow> InterviewSession \<times> SessionRepository" where
  "CreateSession_execute uuid now input sessions =
     (let requestedCount = (case questionCount input of Some n \<Rightarrow> n | None \<Rightarrow> Finite 3);
          count = Math_max (Finite 1)
                    (Math_min requestedCount (Finite (of_nat (length QUESTION_BANK))));
          allow = (case input_allowFollowUps input of Some b \<Rightarrow> b | None \<Rightarrow> True);
          session = \<lparr> session_id = uuid,
                      createdAt = now,
                      status = in_progress,
                      allowFollowUps = allow,
                      questions = slice_from_start QUESTION_BANK count,
                      questionIndex = 0,
                      awaitingFollowUp = False,
                      pendingFollowUpQuestion = None,
                      turns = [],
                      result = None \<rparr>
      in (session, create session sessions))"

section \<open>Reading a session (get-current-prompt.ts, get-session-result.ts)\<close>

record CurrentPromptResult =
  cpr_sessionId :: jsstring
  cpr_status :: SessionStatus
  prompt :: "jsstring option"
  cpr_promptType :: PromptType
  cpr_questionNumber :: nat
  totalQuestions :: nat

definition GetCurrentPrompt_execute ::
  "jsstring \<Rightarrow> SessionRepository \<Rightarrow> (error + CurrentPromptResult) \<times> SessionRepository" where
  "GetCurrentPrompt_execute sessionId sessions =
     (case findById sessionId sessions of
        None \<Rightarrow> (Inl (NotFoundError ''Session not found.''), sessions)
      | Some session \<Rightarrow>
          if status session = completed then
            (Inr \<lparr> cpr_sessionId = session_id session,
                   cpr_status = status session,
                   prompt = None,
                   cpr_promptType = completed_prompt,
                   cpr_questionNumber = length (questions session),
                   totalQuestions = length (questions session) \<rparr>, sessions)
          else if awaitingFollowUp session \<and> truthy (pendingFollowUpQuestion session) then
            (Inr \<lparr> cpr_sessionId = session_id session,
                   cpr_status = status session,
                   prompt = pendingFollowUpQuestion session,
                   cpr_promptType = follow_up,
                   cpr_questionNumber = questionIndex session + 1,
                   totalQuestions = length (questions session) \<rparr>, sessions)
          else
            (Inr \<lparr> cpr_sessionId = session_id session,
                   cpr_status = status session,
                   prompt = at_index (questions session) (questionIndex session),
                   cpr_promptType = question_prompt,
                   cpr_questionNumber = questionIndex session + 1,
                   totalQuestions = length (questions session) \<rparr>, sessions))"

record SessionResultView =
  srv_sessionId :: jsstring
  srv_status :: SessionStatus
  srv_result :: "InterviewFeedback option"

definition GetSessionResult_execute ::
  "jsstring \<Rightarrow> SessionRepository \<Rightarrow> (error + SessionResultView) \<times> SessionRepository" where
  "GetSessionResult_execute sessionId sessions =
     (case findById sessionId sessions of
        None \<Rightarrow> (Inl (NotFoundError ''Session not found.''), sessions)
      | Some session \<Rightarrow>
          (Inr \<lparr> srv_sessionId = session_id session,
                 srv_status = status session,
                 srv_result = result session \<rparr>, sessions))"

section \<open>Submitting an answer (application/use-cases/submit-answer.ts)\<close>

record SubmitAnswerInput =
  sessionId :: jsstring
  answerText :: "jsstring option"
  audioBase64 :: "jsstring option"
  mimeType :: "jsstring option"
  responseDelaySec :: "number option"

record SubmitAnswerResult =
  sar_sessionId :: jsstring
  sar_status :: SessionStatus
  usedTranscript :: jsstring
  interviewerMessage :: jsstring
  nextPrompt :: "jsstring option"
  promptType :: PromptType
  sar_result :: "InterviewFeedback option"

text \<open>\<open>normalizeDelay\<close>: the last line returns \<open>Number(value.toFixed(2))\<close>.\<close>

definition normalizeDelay :: "number option \<Rightarrow> error + number" where
  "normalizeDelay v =
     (case v of
        None \<Rightarrow> Inr (Finite 0)
      | Some n \<Rightarrow>
          if \<not> isFinite n \<or> less_than_zero n then
            Inl (ValidationError ''responseDelaySec must be a non-negative number.'')
          else Inr (toFixed2 n))"

text \<open>\<open>input.mimeType?.trim() || 'audio/wav'\<close>\<close>

definition mimeTypeOrDefault :: "jsstring option \<Rightarrow> jsstring" where
  "mimeTypeOrDefault m =
     (case m of
        None \<Rightarrow> js ''audio/wav''
      | Some t \<Rightarrow> if trim t = [] then js ''audio/wav'' else trim t)"

text \<open>
  \<open>Buffer.from(s, 'base64')\<close> is a parameter \<open>decode\<close> of the model. On a string
  it returns a buffer and does not throw (characters outside the alphabet are skipped),
  so the \<open>catch\<close> around it has no branch here. The two conditions are the
  source's truthiness tests; under them the \<open>None\<close> arm of the match that follows
  is never taken.
\<close>

definition resolveTranscript ::
  "SpeechToTextService \<Rightarrow> (jsstring \<Rightarrow> Buffer) \<Rightarrow> SubmitAnswerInput \<Rightarrow> error + jsstring" where
  "resolveTranscript stt decode input =
     (if truthy (answerText input) \<and> truthy (map_option trim (answerText input)) then
        (case answerText input of
           Some t \<Rightarrow> Inr (trim t)
         | None \<Rightarrow> Inl (ValidationError ''Provide either answerText or audioBase64.''))
      else if \<not> truthy (audioBase64 input) then
        Inl (ValidationError ''Provide either answerText or audioBase64.'')
      else
        (case audioBase64 input of
           None \<Rightarrow> Inl (ValidationError ''Provide either answerText or audioBase64.'')
         | Some b64 \<Rightarrow>
             let mime = mimeTypeOrDefault (mimeType input);
                 audio = decode b64
             in if length audio = 0 then
                  Inl (ValidationError ''Decoded audio payload is empty.'')
                else
                  (case transcribe stt audio mime of
                     None \<Rightarrow> Inl OracleFailure
                   | Some transcript \<Rightarrow>
                       if trim transcript = [] then
                         Inl (ValidationError ''Transcription returned empty text.'')
                       else Inr (trim transcript))))"

definition completeIfFinished ::
  "InterviewCoachService \<Rightarrow> InterviewSession
     \<Rightarrow> error + (InterviewSession \<times> InterviewFeedback option)" where
  "completeIfFinished coach session =
     (if questionIndex session < length (questions session) then Inr (session, None)
      else
        let summary = computeTimingSummary (turns session);
            transcript =
              map (\<lambda>(index, turn).
                     \<lparr> questionNumber = index + 1,
                       tt_question = question turn,
                       tt_answer = answer turn,
                       tt_followUpQuestion = followUpQuestion turn,
                       tt_followUpAnswer = followUpAnswer turn \<rparr>)
                  (enumerate 0 (turns session))
        in case generateFeedback coach summary transcript of
             None \<Rightarrow> Inl OracleFailure
           | Some feedback \<Rightarrow>
               let res = \<lparr> timingSummary = summary,
                           corrections = corrections feedback,
                           improvedBestAnswer = improvedBestAnswer feedback,
                           interviewTips = interviewTips feedback \<rparr>
               in Inr (session\<lparr> result := Some res, status := completed \<rparr>, Some res))"

text \<open>
  The session passed around is the clone \<open>findById\<close> returned: the use-case updates it
  in place and the repository sees it only at \<open>save\<close>. A throw before \<open>save\<close> returns
  the repository as it was.
\<close>

definition submitMainAnswer ::
  "InterviewCoachService \<Rightarrow> InterviewSession \<Rightarrow> jsstring \<Rightarrow> number \<Rightarrow> SessionRepository
     \<Rightarrow> (error + SubmitAnswerResult) \<times> SessionRepository" where
  "submitMainAnswer coach session transcript delay sessions =
     (case at_index (questions session) (questionIndex session) of
        None \<Rightarrow> (Inl (ValidationError ''No active question found for this session.''), sessions)
      | Some q \<Rightarrow>
          if q = [] then
            (Inl (ValidationError ''No active question found for this session.''), sessions)
          else
            (case generateInterviewerReply coach q transcript of
               None \<Rightarrow> (Inl OracleFailure, sessions)
             | Some interviewerReply \<Rightarrow>
                 let followUp = (if allowFollowUps session
                                 then reply_followUpQuestion interviewerReply else None);
                     session1 = session\<lparr> turns := turns session @
                                  [\<lparr> question = q,
                                     answer = transcript,
                                     followUpQuestion = followUp,
                                     followUpAnswer = None,
                                     mainResponseDelaySec = delay,
                                     followUpResponseDelaySec = None \<rparr>] \<rparr>
                 in if truthy followUp then
                      let session2 = session1\<lparr> awaitingFollowUp := True,
                                               pendingFollowUpQuestion := followUp \<rparr>
                      in (Inr \<lparr> sar_sessionId = session_id session2,
                                 sar_status = status session2,
                                 usedTranscript = transcript,
                                 interviewerMessage = replyText interviewerReply,
                                 nextPrompt = followUp,
                                 promptType = follow_up,
                                 sar_result = None \<rparr>,
                          save session2 sessions)
                    else
                      let session2 = session1\<lparr> questionIndex := questionIndex session1 + 1 \<rparr>
                      in (case completeIfFinished coach session2 of
                            Inl e \<Rightarrow> (Inl e, sessions)
                          | Inr (session3, completion) \<Rightarrow>
                              (Inr \<lparr> sar_sessionId = session_id session3,
                                     sar_status = status session3,
                                     usedTranscript = transcript,
                                     interviewerMessage = replyText interviewerReply,
                                     nextPrompt = (if status session3 = completed then None
                                                   else at_index (questions session3)
                                                          (questionIndex session3)),
                                     promptType = (if status session3 = completed
                                                   then completed_prompt else question_prompt),
                                     sar_result = completion \<rparr>,
                               save session3 sessions))))"

definition submitFollowUpAnswer ::
  "InterviewCoachService \<Rightarrow> InterviewSession \<Rightarrow> jsstring \<Rightarrow> number \<Rightarrow> SessionRepository
     \<Rightarrow> (error + SubmitAnswerResult) \<times> SessionRepository" where
  "submitFollowUpAnswer coach session transcript delay sessions =
     (if turns session = [] then
        (Inl (ValidationError ''Follow-up is not available for this session state.''), sessions)
      else
        let activeTurn = last (turns session)
        in (case followUpQuestion activeTurn of
              None \<Rightarrow>
                (Inl (ValidationError ''Follow-up is not available for this session state.''),
                 sessions)
            | Some fq \<Rightarrow>
                if fq = [] then
                  (Inl (ValidationError ''Follow-up is not available for this session state.''),
                   sessions)
                else
                  let activeTurn1 = activeTurn\<lparr> followUpAnswer := Some transcript,
                                                 followUpResponseDelaySec := Some delay \<rparr>;
                      session1 = session\<lparr> turns := butlast (turns session) @ [activeTurn1] \<rparr>
                  in (case generateFollowUpClose coach (question activeTurn1)
                             (answer activeTurn1) fq transcript of
                        None \<Rightarrow> (Inl OracleFailure, sessions)
                      | Some closeText \<Rightarrow>
                          let session2 = session1\<lparr> awaitingFollowUp := False,
                                                   pendingFollowUpQuestion := None,
                                                   questionIndex := questionIndex session1 + 1 \<rparr>
                          in (case completeIfFinished coach session2 of
                                Inl e \<Rightarrow> (Inl e, sessions)
                              | Inr (session3, completion) \<Rightarrow>
                                  (Inr \<lparr> sar_sessionId = session_id session3,
                                         sar_status = status session3,
                                         usedTranscript = transcript,
                                         interviewerMessage = closeText,
                                         nextPrompt = (if status session3 = completed then None
                                                       else at_index (questions session3)
                                                              (questionIndex session3)),
                                         promptType = (if status session3 = completed
                                                       then completed_prompt else question_prompt),
                                         sar_result = completion \<rparr>,
                                   save session3 sessions)))))"

definition SubmitAnswer_execute ::
  "SpeechToTextService \<Rightarrow> InterviewCoachService \<Rightarrow> (jsstring \<Rightarrow> Buffer) \<Rightarrow> SubmitAnswerInput
     \<Rightarrow> SessionRepository \<Rightarrow> (error + SubmitAnswerResult) \<times> SessionRepository" where
  "SubmitAnswer_execute stt coach decode input sessions =
     (case findById (sessionId input) sessions of
        None \<Rightarrow> (Inl (NotFoundError ''Session not found.''), sessions)
      | Some session \<Rightarrow>
          if status session = completed then
            (Inl (ValidationError ''Session is already completed.''), sessions)
          else
            (case normalizeDelay (responseDelaySec input) of
               Inl e \<Rightarrow> (Inl e, sessions)
             | Inr delay \<Rightarrow>
                 (case resolveTranscript stt decode input of
                    Inl e \<Rightarrow> (Inl e, sessions)
                  | Inr transcript \<Rightarrow>
                      if awaitingFollowUp session
                      then submitFollowUpAnswer coach session transcript delay sessions
                      else submitMainAnswer coach session transcript delay sessions)))"

section \<open>Observable states\<close>

text \<open>
  The repositories the four operations can produce from the empty one. The identifier
  and timestamp of a new session, the request and the behaviour of the collaborators
  are arbitrary at every step.
\<close>

inductive reachable :: "SessionRepository \<Rightarrow> bool" where
  initial: "reachable Map.empty"
| created: "reachable sessions \<Longrightarrow>
            reachable (snd (CreateSession_execute uuid now input sessions))"
| submitted: "reachable sessions \<Longrightarrow>
              reachable (snd (SubmitAnswer_execute stt coach decode input sessions))"
| prompted: "reachable sessions \<Longrightarrow> reachable (snd (GetCurrentPrompt_execute sid sessions))"
| viewed: "reachable sessions \<Longrightarrow> reachable (snd (GetSessionResult_execute sid sessions))"

section \<open>Invariants and error classes\<close>

text \<open>
  The facts that hold of every stored session. Besides the ones the data model names,
  a pending follow-up is a non-empty string, it is the follow-up question of the last
  turn, and it is pending on a question that exists; and a session that has questions
  is completed exactly when its index has reached their number.
\<close>

definition session_inv :: "InterviewSession \<Rightarrow> bool" where
  "session_inv s \<longleftrightarrow>
     questionIndex s \<le> length (questions s) \<and>
     (awaitingFollowUp s \<longleftrightarrow> pendingFollowUpQuestion s \<noteq> None) \<and>
     (awaitingFollowUp s \<longrightarrow>
        truthy (pendingFollowUpQuestion s) \<and> turns s \<noteq> [] \<and>
        followUpQuestion (last (turns s)) = pendingFollowUpQuestion s \<and>
        questionIndex s < length (questions s)) \<and>
     length (turns s) = questionIndex s + (if awaitingFollowUp s then 1 else 0) \<and>
     (status s = completed \<longleftrightarrow> result s \<noteq> None) \<and>
     (status s = completed \<longleftrightarrow>
        questionIndex s = length (questions s) \<and> questions s \<noteq> [])"

definition repo_inv :: "SessionRepository \<Rightarrow> bool" where
  "repo_inv sessions \<longleftrightarrow>
     (\<forall>sid s. sessions sid = Some s \<longrightarrow> session_id s = sid \<and> session_inv s)"

text \<open>The turn \<open>submitMainAnswer\<close> pushes.\<close>

definition main_turn ::
  "InterviewSession \<Rightarrow> jsstring \<Rightarrow> jsstring \<Rightarrow> InterviewerReply \<Rightarrow> number \<Rightarrow> SessionTurn" where
  "main_turn s q tr reply d =
     \<lparr> question = q, answer = tr,
       followUpQuestion = (if allowFollowUps s then reply_followUpQuestion reply else None),
       followUpAnswer = None, mainResponseDelaySec = d, followUpResponseDelaySec = None \<rparr>"

text \<open>
  The source has one class, \<open>ValidationError\<close>, for a rejected request and for a
  rejected state; the message tells them apart. \<open>InvalidInput\<close> is a
  \<open>ValidationError\<close> about the request (\<open>normalizeDelay\<close>, \<open>resolveTranscript\<close>),
  \<open>InvalidState\<close> one about the session.
\<close>

definition InvalidInput :: "error \<Rightarrow> bool" where
  "InvalidInput e \<longleftrightarrow>
     e \<in> set [ValidationError ''responseDelaySec must be a non-negative number.'',
              ValidationError ''Provide either answerText or audioBase64.'',
              ValidationError ''audioBase64 must be a valid base64 string.'',
              ValidationError ''Decoded audio payload is empty.'',
              ValidationError ''Transcription returned empty text.'']"

definition InvalidState :: "error \<Rightarrow> bool" where
  "InvalidState e \<longleftrightarrow>
     e \<in> set [ValidationError ''Session is already completed.'',
              ValidationError ''No active question found for this session.'',
              ValidationError ''Follow-up is not available for this session state.'']"

definition NotFound :: "error \<Rightarrow> bool" where
  "NotFound e \<longleftrightarrow> (case e of NotFoundError m \<Rightarrow> True | _ \<Rightarrow> False)"

section \<open>A sample run\<close>

text \<open>
  Collaborators in the manner of the stubs of \<open>scripts/generate-openapi.ts\<close>: a coach
  that always asks a follow-up, the same coach with a feedback call that throws, a
  transcriber that returns a fixed text, and a decoder that returns one byte per code
  unit.
\<close>

definition sample_coach :: InterviewCoachService where
  "sample_coach =
     \<lparr> generateInterviewerReply =
         (\<lambda>q a. Some \<lparr> replyText = js ''Thanks.'',
                        reply_followUpQuestion = Some (js ''Why?'') \<rparr>),
       generateFollowUpClose = (\<lambda>q a fq fa. Some (js ''Thanks for clarifying.'')),
       generateFeedback =
         (\<lambda>summary transcript.
            Some \<lparr> timingSummary = summary, corrections = [],
                   improvedBestAnswer = \<lparr> iba_question = [], iba_answer = [] \<rparr>,
                   interviewTips = [] \<rparr>) \<rparr>"

definition sample_stt :: SpeechToTextService where
  "sample_stt = \<lparr> transcribe = (\<lambda>audio mime. Some (js ''stub'')) \<rparr>"

definition sample_decode :: "jsstring \<Rightarrow> Buffer" where
  "sample_decode b64 = map (\<lambda>c. c mod 256) b64"


definition text_answer :: "string \<Rightarrow> number option \<Rightarrow> SubmitAnswerInput" where
  "text_answer t d =
     \<lparr> sessionId = js ''s-1'', answerText = Some (js t), audioBase64 = None,
       mimeType = None, responseDelaySec = d \<rparr>"

text \<open>One question, follow-ups allowed; then a main answer; then the follow-up answer.\<close>

definition repo0 :: SessionRepository where
  "repo0 = snd (CreateSession_execute (js ''s-1'') (js ''2026-01-01T00:00:00.000Z'')
                  \<lparr> questionCount = Some (Finite 1), input_allowFollowUps = Some True \<rparr>
                  Map.empty)"

definition repo1 :: SessionRepository where
  "repo1 = snd (SubmitAnswer_execute sample_stt sample_coach sample_decode
                  (text_answer ''I build APIs.'' (Some (Finite 2))) repo0)"

definition repo2 :: SessionRepository where
  "repo2 = snd (SubmitAnswer_execute sample_stt sample_coach sample_decode
                  (text_answer ''Because I like it.'' (Some (Finite 5))) repo1)"

definition turn1 :: SessionTurn where
  "turn1 = \<lparr> question = js ''Tell me about yourself and your current backend focus.'',
             answer = js ''I build APIs.'',
             followUpQuestion = Some (js ''Why?''),
             followUpAnswer = None,
             mainResponseDelaySec = Finite 2,
             followUpResponseDelaySec = None \<rparr>"

definition session0 :: InterviewSession where
  "session0 = \<lparr> session_id = js ''s-1'',
                createdAt = js ''2026-01-01T00:00:00.000Z'',
                status = in_progress,
                allowFollowUps = True,
                questions = [js ''Tell me about yourself and your current backend focus.''],
                questionIndex = 0,
                awaitingFollowUp = False,
                pendingFollowUpQuestion = None,
                turns = [],
                result = None \<rparr>"

definition session1 :: InterviewSession where
  "session1 = session0\<lparr> turns := [turn1], awaitingFollowUp := True,
                        pendingFollowUpQuestion := Some (js ''Why?'') \<rparr>"

definition feedback2 :: InterviewFeedback where
  "feedback2 = \<lparr> timingSummary = \<lparr> avgResponseDelaySec = Finite (7 / 2),
                                  longPausesCount = 1, totalTurns = 2 \<rparr>,
                 corrections = [],
                 improvedBestAnswer = \<lparr> iba_question = [], iba_answer = [] \<rparr>,
                 interviewTips = [] \<rparr>"

definition session2 :: InterviewSession where
  "session2 = session0\<lparr> turns := [turn1\<lparr> followUpAnswer := Some (js ''Because I like it.''),
                                        followUpResponseDelaySec := Some (Finite 5) \<rparr>],
                        questionIndex := 1,
                        result := Some feedback2,
                        status := completed \<rparr>"

definition result1 :: SubmitAnswerResult where
  "result1 = \<lparr> sar_sessionId = js ''s-1'', sar_status = in_progress,
               usedTranscript = js ''I build APIs.'', interviewerMessage = js ''Thanks.'',
               nextPrompt = Some (js ''Why?''), promptType = follow_up,
               sar_result = None \<rparr>"

definition result2 :: SubmitAnswerResult where
  "result2 = \<lparr> sar_sessionId = js ''s-1'', sar_status = completed,
               usedTranscript = js ''Because I like it.'',
               interviewerMessage = js ''Thanks for clarifying.'',
               nextPrompt = None, promptType = completed_prompt,
               sar_result = Some feedback2 \<rparr>"

text \<open>Two questions, follow-ups not allowed; then a main answer to the same coach.\<close>

definition plain0 :: InterviewSession where
  "plain0 = \<lparr> session_id = js ''s-1'',
              createdAt = js ''2026-01-01T00:00:00.000Z'',
              status = in_progress,
              allowFollowUps = False,
              questions = [js ''Tell me about yourself and your current backend focus.'',
                js ''Describe a challenging production incident you handled. What did you do?''],
              questionIndex = 0,
              awaitingFollowUp = False,
              pendingFollowUpQuestion = None,
              turns = [],
              result = None \<rparr>"

definition plain1 :: InterviewSession where
  "plain1 = plain0\<lparr> turns := [turn1\<lparr> followUpQuestion := None \<rparr>], questionIndex := 1 \<rparr>"

definition plain_result1 :: SubmitAnswerResult where
  "plain_result1 =
     \<lparr> sar_sessionId = js ''s-1'', sar_status = in_progress,
       usedTranscript = js ''I build APIs.'', interviewerMessage = js ''Thanks.'',
       nextPrompt =
         Some (js ''Describe a challenging production incident you handled. What did you do?''),
       promptType = question_prompt, sar_result = None \<rparr>"

text \<open>The turns of the timing example: delays \<open>[2.0]\<close> and \<open>[5.0, 1.0]\<close>.\<close>

definition timing_turn1 :: SessionTurn where
  "timing_turn1 = \<lparr> question = js ''q1'', answer = js ''a1'', followUpQuestion = None,
                    followUpAnswer = None, mainResponseDelaySec = Finite 2,
                    followUpResponseDelaySec = None \<rparr>"

definition timing_turn2 :: SessionTurn where
  "timing_turn2 = \<lparr> question = js ''q2'', answer = js ''a2'',
                    followUpQuestion = Some (js ''f2''), followUpAnswer = Some (js ''b2''),
                    mainResponseDelaySec = Finite 5,
                    followUpResponseDelaySec = Some (Finite 1) \<rparr>"

text \<open>
  Ten turns without follow-ups: one answered after 0.75 seconds, nine at once. The
  delays are doubles, their sum is exactly 0.75 and their mean exactly 0.075.
\<close>

definition slow_turn :: SessionTurn where
  "slow_turn = timing_turn1\<lparr> mainResponseDelaySec := Finite (3 / 4) \<rparr>"

definition quick_turn :: SessionTurn where
  "quick_turn = timing_turn1\<lparr> mainResponseDelaySec := Finite 0 \<rparr>"

definition ten_turns :: "SessionTurn list" where
  "ten_turns = slow_turn # replicate 9 quick_turn"

text \<open>
  The specification's words for the average, in exact arithmetic: the arithmetic mean
  of the delays rounded to two decimals (a tie upwards), or 0 when there are none.
\<close>

definition spec_avgResponseDelaySec :: "rat list \<Rightarrow> rat" where
  "spec_avgResponseDelaySec ds =
     (if ds = [] then 0
      else of_int \<lfloor>sum_list ds / of_nat (length ds) * 100 + 1 / 2\<rfloor> / 100)"

text \<open>
  A request with audio only and a transcriber that hears nothing; and a request whose
  text is a single no-break space.
\<close>

definition audio_answer :: SubmitAnswerInput where
  "audio_answer =
     \<lparr> sessionId = js ''s-1'', answerText = None, audioBase64 = Some (js ''UklGRg==''),
       mimeType = None, responseDelaySec = None \<rparr>"

definition blank_stt :: SpeechToTextService where
  "blank_stt = \<lparr> transcribe = (\<lambda>audio mime. Some (js ''  '')) \<rparr>"

definition nbsp_answer :: SubmitAnswerInput where
  "nbsp_answer =
     \<lparr> sessionId = js ''s-1'', answerText = Some [0xA0], audioBase64 = None,
       mimeType = None, responseDelaySec = None \<rparr>"

text \<open>A stored session that no run produces: awaiting a follow-up with none pending.\<close>

definition odd_session :: InterviewSession where
  "odd_session = session0\<lparr> awaitingFollowUp := True \<rparr>"

text \<open>A request to create a session whose count is not a number.\<close>

definition nan_input :: CreateSessionInput where
  "nan_input = \<lparr> questionCount = Some NaN, input_allowFollowUps = None \<rparr>"

section \<open>Evaluation helpers\<close>

lemma floor_numeral_div_rat:
  "\<lfloor>(numeral a :: rat) / numeral b\<rfloor> = numeral a div numeral b"
  using floor_divide_of_int_eq [of "numeral a" "numeral b", where ?'a = rat] by simp

lemma floor_one_div_rat: "\<lfloor>(1 :: rat) / numeral b\<rfloor> = 1 div numeral b"
  using floor_divide_of_int_eq [of 1 "numeral b", where ?'a = rat] by simp

lemma ceiling_numeral_div_rat:
  "\<lceil>(numeral a :: rat) / numeral b\<rceil> = - ((- numeral a) div numeral b)"
  using ceiling_divide_eq_div [of "numeral a" "numeral b", where ?'a = rat] by simp

lemma ceiling_one_div_rat: "\<lceil>(1 :: rat) / numeral b\<rceil> = - ((- 1) div numeral b)"
  using ceiling_divide_eq_div [of 1 "numeral b", where ?'a = rat] by simp

lemma bit_length_0: "bit_length 0 = 0"
  by (simp add: bit_length.simps)

lemma bit_length_pos: "n \<noteq> 0 \<Longrightarrow> bit_length n = Suc (bit_length (n div 2))"
  by (subst bit_length.simps) simp

lemmas fl_eval = fl_def or_infinity_def round_to_spacing_def spacing_def round_half_even_def
  nearest_even_def pow2_def binary_exponent_def bit_length_0 bit_length_pos
  floor_numeral_div_rat floor_one_div_rat ceiling_numeral_div_rat ceiling_one_div_rat

lemma fl_small_integers:
  "fl 1 = Finite 1" "fl 2 = Finite 2" "fl 5 = Finite 5" "fl 7 = Finite 7" "fl 8 = Finite 8"
  by (simp_all add: fl_eval)

lemma fl_7_2: "fl (7 / 2) = Finite (7 / 2)"
  by (simp add: fl_eval)

lemma fl_3_4: "fl (3 / 4) = Finite (3 / 4)"
  by (simp add: fl_eval)

lemma fl_3_40: "fl (3 / 40) = Finite (5404319552844595 / 72057594037927936)"
  by (simp add: fl_eval)

lemma fl_8_3: "fl (8 / 3) = Finite (6004799503160661 / 2251799813685248)"
  by (simp add: fl_eval)

lemma fl_hundredths:
  "fl (7 / 100) = Finite (1261007895663739 / 18014398509481984)"
  "fl (8 / 100) = Finite (5764607523034235 / 72057594037927936)"
  "fl (267 / 100) = Finite (1503076375634903 / 562949953421312)"
  by (simp_all add: fl_eval)

lemma toFixed2_small:
  "toFixed2 (Finite 2) = Finite 2" "toFixed2 (Finite 5) = Finite 5"
  "toFixed2 (Finite (7 / 2)) = Finite (7 / 2)"
  by (simp_all add: floor_numeral_div_rat fl_small_integers fl_7_2)

lemma js_not_empty: "js (c # cs) \<noteq> []"
  by (simp add: js_def)

lemma trim_samples:
  "trim (js ''I build APIs.'') = js ''I build APIs.''"
  "trim (js ''Because I like it.'') = js ''Because I like it.''"
  "trim (js ''Hello.'') = js ''Hello.''"
  "trim (js ''  '') = []"
  "trim [0xA0] = []"
  by (simp_all add: trim_def js_def is_space_def)

lemma repo0_eq: "repo0 = [js ''s-1'' \<mapsto> session0]"
  by (simp add: repo0_def CreateSession_execute_def QUESTION_BANK_def create_def session0_def
      Let_def slice_from_start_def)

lemma run1_eq:
  "SubmitAnswer_execute sample_stt sample_coach sample_decode
     (text_answer ''I build APIs.'' (Some (Finite 2))) [js ''s-1'' \<mapsto> session0]
   = (Inr result1, [js ''s-1'' \<mapsto> session1])"
  by (simp add: SubmitAnswer_execute_def findById_def session0_def session1_def turn1_def
      text_answer_def normalizeDelay_def resolveTranscript_def truthy_def trim_samples
      js_not_empty submitMainAnswer_def at_index_def sample_coach_def Let_def save_def
      toFixed2_small floor_numeral_div_rat fl_small_integers result1_def)

lemma run2_eq:
  "SubmitAnswer_execute sample_stt sample_coach sample_decode
     (text_answer ''Because I like it.'' (Some (Finite 5))) [js ''s-1'' \<mapsto> session1]
   = (Inr result2, [js ''s-1'' \<mapsto> session2])"
  by (simp add: SubmitAnswer_execute_def findById_def session0_def session1_def session2_def
      turn1_def text_answer_def normalizeDelay_def resolveTranscript_def truthy_def
      trim_samples js_not_empty submitFollowUpAnswer_def at_index_def sample_coach_def
      Let_def save_def completeIfFinished_def computeTimingSummary_def flatten_delays_def
      turn_delays_def feedback2_def numeral_2_eq_2 toFixed2_small floor_numeral_div_rat
      fl_small_integers fl_7_2
      result2_def)


lemma plain_run1_eq:
  "SubmitAnswer_execute sample_stt sample_coach sample_decode
     (text_answer ''I build APIs.'' (Some (Finite 2))) [js ''s-1'' \<mapsto> plain0]
   = (Inr plain_result1, [js ''s-1'' \<mapsto> plain1])"
  by (simp add: SubmitAnswer_execute_def findById_def plain0_def plain1_def turn1_def
      text_answer_def normalizeDelay_def resolveTranscript_def truthy_def trim_samples
      js_not_empty submitMainAnswer_def at_index_def sample_coach_def Let_def save_def
      toFixed2_small floor_numeral_div_rat fl_small_integers plain_result1_def
      completeIfFinished_def)

lemma repo1_eq: "repo1 = [js ''s-1'' \<mapsto> session1]"
  unfolding repo1_def repo0_eq by (simp add: run1_eq)

lemma repo2_eq: "repo2 = [js ''s-1'' \<mapsto> session2]"
  unfolding repo2_def repo1_eq by (simp add: run2_eq)

lemma reachable_repo1: "reachable repo1"
  unfolding repo1_def repo0_def by (intro reachable.intros)

lemma reachable_repo2: "reachable repo2"
  unfolding repo2_def repo1_def repo0_def by (intro reachable.intros)

section \<open>One transition\<close>

lemma completeIfFinished_Inr:
  assumes "completeIfFinished coach s = Inr (s', c)"
  shows "(questionIndex s < length (questions s) \<and> s' = s \<and> c = None) \<or>
         (\<not> questionIndex s < length (questions s) \<and>
          (\<exists>res. s' = s\<lparr> result := Some res, status := completed \<rparr> \<and> c = Some res \<and>
                 timingSummary res = computeTimingSummary (turns s)))"
proof (cases "questionIndex s < length (questions s)")
  case True
  with assms show ?thesis by (simp add: completeIfFinished_def)
next
  case False
  with assms show ?thesis
    by (simp add: completeIfFinished_def Let_def split: option.splits) auto
qed

lemma completeIfFinished_Inl:
  "completeIfFinished coach s = Inl e \<Longrightarrow> e = OracleFailure"
  by (simp add: completeIfFinished_def Let_def split: if_splits option.splits)

lemma completeIfFinished_id:
  "completeIfFinished coach s = Inr (s', c) \<Longrightarrow> session_id s' = session_id s"
  by (auto dest: completeIfFinished_Inr)

lemma submitMainAnswer_error:
  "submitMainAnswer coach s tr d sessions = (Inl e, sessions') \<Longrightarrow> sessions' = sessions"
  unfolding submitMainAnswer_def
  by (simp add: Let_def split: if_splits option.splits sum.splits prod.splits)

lemma submitFollowUpAnswer_error:
  "submitFollowUpAnswer coach s tr d sessions = (Inl e, sessions') \<Longrightarrow> sessions' = sessions"
  unfolding submitFollowUpAnswer_def
  by (simp add: Let_def split: if_splits option.splits sum.splits prod.splits)

lemma submitMainAnswer_Inr:
  assumes "submitMainAnswer coach s tr d sessions = (Inr res, sessions')"
  shows "\<exists>q reply s'. at_index (questions s) (questionIndex s) = Some q \<and> q \<noteq> [] \<and>
           generateInterviewerReply coach q tr = Some reply \<and>
           sessions' = sessions(session_id s \<mapsto> s') \<and>
           (truthy (followUpQuestion (main_turn s q tr reply d)) \<and>
              s' = s\<lparr> turns := turns s @ [main_turn s q tr reply d],
                       awaitingFollowUp := True,
                       pendingFollowUpQuestion := followUpQuestion (main_turn s q tr reply d) \<rparr> \<and>
              promptType res = follow_up \<and> sar_result res = None \<and>
              nextPrompt res = followUpQuestion (main_turn s q tr reply d)
            \<or>
            \<not> truthy (followUpQuestion (main_turn s q tr reply d)) \<and>
              completeIfFinished coach
                (s\<lparr> turns := turns s @ [main_turn s q tr reply d],
                     questionIndex := questionIndex s + 1 \<rparr>) = Inr (s', sar_result res) \<and>
              promptType res =
                (if status s' = completed then completed_prompt else question_prompt) \<and>
              nextPrompt res = (if status s' = completed then None
                                else at_index (questions s') (questionIndex s')))"
proof (cases "at_index (questions s) (questionIndex s)")
  case None
  with assms show ?thesis by (simp add: submitMainAnswer_def)
next
  case (Some q)
  note q = this
  show ?thesis
  proof (cases "q = []")
    case True
    with assms q show ?thesis by (simp add: submitMainAnswer_def)
  next
    case False
    note qne = this
    show ?thesis
    proof (cases "generateInterviewerReply coach q tr")
      case None
      with assms q qne show ?thesis by (simp add: submitMainAnswer_def)
    next
      case (Some reply)
      note reply = this
      show ?thesis
      proof (cases "truthy (followUpQuestion (main_turn s q tr reply d))")
        case True
        with assms q qne reply show ?thesis
          by (simp add: submitMainAnswer_def main_turn_def Let_def save_def) auto
      next
        case False
        note nofu = this
        let ?s2 = "s\<lparr> turns := turns s @ [main_turn s q tr reply d],
                         questionIndex := questionIndex s + 1 \<rparr>"
        show ?thesis
        proof (cases "completeIfFinished coach ?s2")
          case (Inl e)
          with assms q qne reply nofu show ?thesis
            by (simp add: submitMainAnswer_def main_turn_def Let_def)
        next
          case (Inr p)
          obtain s3 c where p: "p = (s3, c)" by (cases p)
          from Inr p have cf: "completeIfFinished coach ?s2 = Inr (s3, c)" by simp
          from completeIfFinished_id [OF cf] have sid: "session_id s3 = session_id s" by simp
          from assms q qne reply nofu cf sid show ?thesis
            by (simp add: submitMainAnswer_def main_turn_def Let_def save_def) auto
        qed
      qed
    qed
  qed
qed

lemma submitFollowUpAnswer_Inr:
  assumes "submitFollowUpAnswer coach s tr d sessions = (Inr res, sessions')"
  shows "\<exists>fq closeText s'. turns s \<noteq> [] \<and> followUpQuestion (last (turns s)) = Some fq \<and>
           fq \<noteq> [] \<and>
           generateFollowUpClose coach (question (last (turns s))) (answer (last (turns s))) fq tr
             = Some closeText \<and>
           sessions' = sessions(session_id s \<mapsto> s') \<and>
           completeIfFinished coach
             (s\<lparr> turns := butlast (turns s) @
                      [(last (turns s))\<lparr> followUpAnswer := Some tr,
                                          followUpResponseDelaySec := Some d \<rparr>],
                  awaitingFollowUp := False,
                  pendingFollowUpQuestion := None,
                  questionIndex := questionIndex s + 1 \<rparr>) = Inr (s', sar_result res) \<and>
           interviewerMessage res = closeText \<and>
           promptType res =
             (if status s' = completed then completed_prompt else question_prompt) \<and>
           nextPrompt res = (if status s' = completed then None
                             else at_index (questions s') (questionIndex s'))"
proof (cases "turns s = []")
  case True
  with assms show ?thesis by (simp add: submitFollowUpAnswer_def)
next
  case False
  note ne = this
  show ?thesis
  proof (cases "followUpQuestion (last (turns s))")
    case None
    with assms ne show ?thesis by (simp add: submitFollowUpAnswer_def Let_def)
  next
    case (Some fq)
    note fq = this
    show ?thesis
    proof (cases "fq = []")
      case True
      with assms ne fq show ?thesis by (simp add: submitFollowUpAnswer_def Let_def)
    next
      case False
      note fqne = this
      show ?thesis
      proof (cases "generateFollowUpClose coach (question (last (turns s)))
                      (answer (last (turns s))) fq tr")
        case None
        with assms ne fq fqne show ?thesis by (simp add: submitFollowUpAnswer_def Let_def)
      next
        case (Some closeText)
        note close = this
        let ?s2 = "s\<lparr> turns := butlast (turns s) @
                      [(last (turns s))\<lparr> followUpAnswer := Some tr,
                                          followUpResponseDelaySec := Some d \<rparr>],
                  awaitingFollowUp := False,
                  pendingFollowUpQuestion := None,
                  questionIndex := questionIndex s + 1 \<rparr>"
        show ?thesis
        proof (cases "completeIfFinished coach ?s2")
          case (Inl e)
          with assms ne fq fqne close show ?thesis
            by (simp add: submitFollowUpAnswer_def Let_def)
        next
          case (Inr p)
          obtain s3 c where p: "p = (s3, c)" by (cases p)
          from Inr p have cf: "completeIfFinished coach ?s2 = Inr (s3, c)" by simp
          from completeIfFinished_id [OF cf] have sid: "session_id s3 = session_id s" by simp
          from assms ne fq fqne close cf sid show ?thesis
            by (simp add: submitFollowUpAnswer_def Let_def save_def) auto
        qed
      qed
    qed
  qed
qed

lemma completeIfFinished_inv:
  assumes cf: "completeIfFinished coach s = Inr (s', c)"
    and "questionIndex s \<le> length (questions s)"
    and "\<not> awaitingFollowUp s" and "pendingFollowUpQuestion s = None"
    and "length (turns s) = questionIndex s"
    and "status s = in_progress" and "result s = None"
    and "questions s \<noteq> []"
  shows "session_inv s'"
  using completeIfFinished_Inr [OF cf] assms(2-)
  by (auto simp: session_inv_def)

lemma submitMainAnswer_inv:
  assumes run: "submitMainAnswer coach s tr d sessions = (Inr res, sessions')"
    and inv: "session_inv s" and na: "\<not> awaitingFollowUp s" and st: "status s = in_progress"
  shows "\<exists>s'. sessions' = sessions(session_id s \<mapsto> s') \<and> session_inv s' \<and>
              session_id s' = session_id s \<and> questions s' = questions s \<and>
              questionIndex s \<le> questionIndex s' \<and>
              length (turns s') = length (turns s) + 1"
proof -
  from submitMainAnswer_Inr [OF run] obtain q reply s' where
    q: "at_index (questions s) (questionIndex s) = Some q" and
    upd: "sessions' = sessions(session_id s \<mapsto> s')" and
    alt: "(truthy (followUpQuestion (main_turn s q tr reply d)) \<and>
              s' = s\<lparr> turns := turns s @ [main_turn s q tr reply d],
                       awaitingFollowUp := True,
                       pendingFollowUpQuestion := followUpQuestion (main_turn s q tr reply d) \<rparr>)
            \<or>
            (\<not> truthy (followUpQuestion (main_turn s q tr reply d)) \<and>
              completeIfFinished coach
                (s\<lparr> turns := turns s @ [main_turn s q tr reply d],
                     questionIndex := questionIndex s + 1 \<rparr>) = Inr (s', sar_result res))"
    by blast
  from q have lt: "questionIndex s < length (questions s)"
    by (simp add: at_index_def split: if_splits)
  then have ne: "questions s \<noteq> []" by auto
  from inv na st have base: "pendingFollowUpQuestion s = None"
    "length (turns s) = questionIndex s" "result s = None"
    by (auto simp: session_inv_def)
  from alt show ?thesis
  proof
    assume a: "truthy (followUpQuestion (main_turn s q tr reply d)) \<and>
              s' = s\<lparr> turns := turns s @ [main_turn s q tr reply d],
                       awaitingFollowUp := True,
                       pendingFollowUpQuestion := followUpQuestion (main_turn s q tr reply d) \<rparr>"
    then have "session_inv s'"
      using lt base st by (auto simp: session_inv_def truthy_def split: option.splits)
    with a upd show ?thesis by auto
  next
    assume b: "\<not> truthy (followUpQuestion (main_turn s q tr reply d)) \<and>
              completeIfFinished coach
                (s\<lparr> turns := turns s @ [main_turn s q tr reply d],
                     questionIndex := questionIndex s + 1 \<rparr>) = Inr (s', sar_result res)"
    then have cf: "completeIfFinished coach
                (s\<lparr> turns := turns s @ [main_turn s q tr reply d],
                     questionIndex := questionIndex s + 1 \<rparr>) = Inr (s', sar_result res)"
      by simp
    have "session_inv s'"
      by (rule completeIfFinished_inv [OF cf]) (use lt base st na ne in simp_all)
    moreover from completeIfFinished_Inr [OF cf]
    have "session_id s' = session_id s \<and> questions s' = questions s \<and>
          questionIndex s' = questionIndex s + 1 \<and>
          length (turns s') = length (turns s) + 1" by auto
    ultimately show ?thesis using upd by auto
  qed
qed

lemma submitFollowUpAnswer_inv:
  assumes run: "submitFollowUpAnswer coach s tr d sessions = (Inr res, sessions')"
    and inv: "session_inv s" and aw: "awaitingFollowUp s" and st: "status s = in_progress"
  shows "\<exists>s'. sessions' = sessions(session_id s \<mapsto> s') \<and> session_inv s' \<and>
              session_id s' = session_id s \<and> questions s' = questions s \<and>
              questionIndex s \<le> questionIndex s' \<and>
              length (turns s') = length (turns s)"
proof -
  let ?s2 = "s\<lparr> turns := butlast (turns s) @
                      [(last (turns s))\<lparr> followUpAnswer := Some tr,
                                          followUpResponseDelaySec := Some d \<rparr>],
                  awaitingFollowUp := False,
                  pendingFollowUpQuestion := None,
                  questionIndex := questionIndex s + 1 \<rparr>"
  from submitFollowUpAnswer_Inr [OF run] obtain s' where
    ne: "turns s \<noteq> []" and
    upd: "sessions' = sessions(session_id s \<mapsto> s')" and
    cf: "completeIfFinished coach ?s2 = Inr (s', sar_result res)"
    by blast
  from inv aw st have base: "questionIndex s < length (questions s)"
    "length (turns s) = questionIndex s + 1" "result s = None"
    by (auto simp: session_inv_def)
  from base(1) have qne: "questions s \<noteq> []" by auto
  have "session_inv s'"
    by (rule completeIfFinished_inv [OF cf]) (use base st ne qne in simp_all)
  moreover from completeIfFinished_Inr [OF cf] ne
  have "session_id s' = session_id s \<and> questions s' = questions s \<and>
        questionIndex s' = questionIndex s + 1 \<and>
        length (turns s') = length (turns s)" by auto
  ultimately show ?thesis using upd by auto
qed

lemma SubmitAnswer_execute_error:
  assumes "SubmitAnswer_execute stt coach decode input sessions = (Inl e, sessions')"
  shows "sessions' = sessions"
  using assms unfolding SubmitAnswer_execute_def
  by (auto split: option.splits if_splits sum.splits
           dest: submitMainAnswer_error submitFollowUpAnswer_error)

lemma SubmitAnswer_execute_Inr:
  assumes "SubmitAnswer_execute stt coach decode input sessions = (Inr res, sessions')"
  shows "\<exists>s d tr. findById (sessionId input) sessions = Some s \<and> status s = in_progress \<and>
           normalizeDelay (responseDelaySec input) = Inr d \<and>
           resolveTranscript stt decode input = Inr tr \<and>
           (if awaitingFollowUp s
            then submitFollowUpAnswer coach s tr d sessions
            else submitMainAnswer coach s tr d sessions) = (Inr res, sessions')"
proof -
  have st: "\<And>x. x \<noteq> completed \<Longrightarrow> x = in_progress"
    by (case_tac x) simp_all
  from assms show ?thesis
    unfolding SubmitAnswer_execute_def
    by (auto split: option.splits if_splits sum.splits intro: st)
qed

lemma SubmitAnswer_execute_step:
  assumes inv: "repo_inv sessions"
    and run: "SubmitAnswer_execute stt coach decode input sessions = (r, sessions')"
  shows "(\<exists>e. r = Inl e \<and> sessions' = sessions) \<or>
         (\<exists>res s s'. r = Inr res \<and> sessions (sessionId input) = Some s \<and>
            status s = in_progress \<and> sessions' = sessions(sessionId input \<mapsto> s') \<and>
            session_inv s' \<and> session_id s' = sessionId input \<and>
            questions s' = questions s \<and> questionIndex s \<le> questionIndex s' \<and>
            length (turns s') = length (turns s) + (if awaitingFollowUp s then 0 else 1))"
proof (cases r)
  case (Inl e)
  with run SubmitAnswer_execute_error show ?thesis by blast
next
  case (Inr res)
  with run have run': "SubmitAnswer_execute stt coach decode input sessions = (Inr res, sessions')"
    by simp
  from SubmitAnswer_execute_Inr [OF run'] obtain s d tr where
    s: "sessions (sessionId input) = Some s" and st: "status s = in_progress" and
    br: "(if awaitingFollowUp s
            then submitFollowUpAnswer coach s tr d sessions
            else submitMainAnswer coach s tr d sessions) = (Inr res, sessions')"
    by (auto simp: findById_def)
  from inv s have sinv: "session_inv s" and sid: "session_id s = sessionId input"
    by (auto simp: repo_inv_def)
  show ?thesis
  proof (cases "awaitingFollowUp s")
    case True
    with br have "submitFollowUpAnswer coach s tr d sessions = (Inr res, sessions')" by simp
    from submitFollowUpAnswer_inv [OF this sinv True st] Inr s st sid True
    show ?thesis by auto
  next
    case False
    with br have "submitMainAnswer coach s tr d sessions = (Inr res, sessions')" by simp
    from submitMainAnswer_inv [OF this sinv False st] Inr s st sid False
    show ?thesis by auto
  qed
qed

section \<open>Every observable repository satisfies the invariants\<close>

lemma length_QUESTION_BANK: "length QUESTION_BANK = 10"
  by (simp add: QUESTION_BANK_def)

lemma CreateSession_execute_inv:
  "session_inv (fst (CreateSession_execute uuid now input sessions))"
  by (auto simp: CreateSession_execute_def Let_def session_inv_def)

lemma reachable_inv: "reachable sessions \<Longrightarrow> repo_inv sessions"
proof (induction rule: reachable.induct)
  case initial
  show ?case by (simp add: repo_inv_def)
next
  case (created sessions uuid now input)
  have "snd (CreateSession_execute uuid now input sessions) =
        sessions(uuid \<mapsto> fst (CreateSession_execute uuid now input sessions))"
    by (simp add: CreateSession_execute_def Let_def create_def)
  moreover have "session_id (fst (CreateSession_execute uuid now input sessions)) = uuid"
    by (simp add: CreateSession_execute_def Let_def)
  ultimately show ?case
    using created.IH CreateSession_execute_inv [of uuid now input sessions]
    by (auto simp: repo_inv_def)
next
  case (submitted sessions stt coach decode input)
  obtain r sessions' where
    run: "SubmitAnswer_execute stt coach decode input sessions = (r, sessions')"
    by (cases "SubmitAnswer_execute stt coach decode input sessions")
  from SubmitAnswer_execute_step [OF submitted.IH run] submitted.IH
  have "repo_inv sessions'" by (auto simp: repo_inv_def split: if_splits)
  with run show ?case by simp
next
  case (prompted sessions sid)
  then show ?case
    by (simp add: GetCurrentPrompt_execute_def findById_def split: option.splits)
next
  case (viewed sessions sid)
  then show ?case
    by (simp add: GetSessionResult_execute_def findById_def split: option.splits)
qed

lemma reachable_session_inv:
  "reachable sessions \<Longrightarrow> sessions sid = Some s \<Longrightarrow> session_inv s \<and> session_id s = sid"
  using reachable_inv by (auto simp: repo_inv_def)


section \<open>Turns and the question index\<close>

text \<open>
  Claim C1, as the specification states it, says that \<open>turns.length\<close> equals
  \<open>questionIndex\<close> at every observation point, also while \<open>awaitingFollowUp\<close> is true.
  After a main answer that produced a follow-up, the turn has been pushed and the index
  has not advanced: the stored session has one turn and index 0.
\<close>

theorem turns_length_awaiting_counterexample:
  "reachable repo1 \<and> repo1 (js ''s-1'') = Some session1 \<and> awaitingFollowUp session1 \<and>
   length (turns session1) \<noteq> questionIndex session1"
  using reachable_repo1 by (simp add: repo1_eq session1_def session0_def)

text \<open>
  Claim C1, amended: in every stored session \<open>turns.length\<close> equals \<open>questionIndex\<close>
  when no follow-up is pending and \<open>questionIndex + 1\<close> while \<open>awaitingFollowUp\<close> is
  true. A submission that fails leaves the session as it was; one that succeeds adds
  exactly one turn when it records a main answer and none when it records a follow-up
  answer.
\<close>

theorem turns_length_questionIndex:
  assumes "reachable sessions" and "sessions sid = Some s"
  shows "length (turns s) = questionIndex s + (if awaitingFollowUp s then 1 else 0) \<and>
         (\<forall>stt coach decode input. sessionId input = sid \<longrightarrow>
            (case SubmitAnswer_execute stt coach decode input sessions of
               (Inl e, sessions') \<Rightarrow> sessions' sid = Some s
             | (Inr res, sessions') \<Rightarrow>
                 (\<exists>s'. sessions' sid = Some s' \<and>
                    length (turns s') =
                      length (turns s) + (if awaitingFollowUp s then 0 else 1))))"
proof (intro conjI allI impI)
  from reachable_session_inv [OF assms]
  show "length (turns s) = questionIndex s + (if awaitingFollowUp s then 1 else 0)"
    by (simp add: session_inv_def)
next
  fix stt coach decode and input :: SubmitAnswerInput
  assume sid: "sessionId input = sid"
  obtain r sessions' where
    run: "SubmitAnswer_execute stt coach decode input sessions = (r, sessions')"
    by (cases "SubmitAnswer_execute stt coach decode input sessions")
  from SubmitAnswer_execute_step [OF reachable_inv [OF assms(1)] run] sid assms(2) run
  show "case SubmitAnswer_execute stt coach decode input sessions of
          (Inl e, sessions') \<Rightarrow> sessions' sid = Some s
        | (Inr res, sessions') \<Rightarrow>
            (\<exists>s'. sessions' sid = Some s' \<and>
               length (turns s') =
                 length (turns s) + (if awaitingFollowUp s then 0 else 1))"
    by auto
qed

theorem turns_length_questionIndex_witness:
  "reachable repo1 \<and> repo1 (js ''s-1'') = Some session1 \<and>
   length (turns session1) = questionIndex session1 + 1 \<and>
   repo2 (js ''s-1'') = Some session2 \<and> length (turns session2) = length (turns session1)"
proof -
  have r: "reachable repo1" by (rule reachable_repo1)
  have l: "repo1 (js ''s-1'') = Some session1" by (simp add: repo1_eq)
  from turns_length_questionIndex [OF r l]
  have "length (turns session1) = questionIndex session1 + (if awaitingFollowUp session1 then 1 else 0)"
    by blast
  then show ?thesis
    using r l by (simp add: repo2_eq session1_def session2_def session0_def)
qed

section \<open>Failed transitions\<close>




section \<open>Completion and the result\<close>

text \<open>
  Claim C5: in every stored session \<open>status = completed\<close> if and only if \<open>result\<close> is
  not \<open>null\<close>; \<open>GetResult\<close> returns the stored status and result, so its result is
  \<open>null\<close> unless the status is \<open>completed\<close>, and it leaves the repository alone. The
  result is populated once: a \<open>SubmitAnswer\<close> leaves a session that has a result
  exactly as it is, and a session that gains a result in a \<open>SubmitAnswer\<close> is
  \<open>completed\<close> by that same transition.
\<close>

theorem completed_iff_result:
  assumes "reachable sessions" and "sessions sid = Some s"
  shows "(status s = completed \<longleftrightarrow> result s \<noteq> None) \<and>
         GetSessionResult_execute sid sessions =
           (Inr \<lparr> srv_sessionId = sid, srv_status = status s, srv_result = result s \<rparr>,
            sessions) \<and>
         (\<forall>stt coach decode input.
            \<exists>s'. snd (SubmitAnswer_execute stt coach decode input sessions) sid = Some s' \<and>
                 (status s' = completed \<longleftrightarrow> result s' \<noteq> None) \<and>
                 (result s \<noteq> None \<longrightarrow> s' = s) \<and>
                 (result s = None \<and> result s' \<noteq> None \<longrightarrow>
                    status s = in_progress \<and> status s' = completed))"
proof (intro conjI allI)
  from reachable_session_inv [OF assms]
  have inv: "session_inv s" and id: "session_id s = sid" by simp_all
  from inv show c: "status s = completed \<longleftrightarrow> result s \<noteq> None"
    by (simp add: session_inv_def)
  from assms(2) id show "GetSessionResult_execute sid sessions =
           (Inr \<lparr> srv_sessionId = sid, srv_status = status s, srv_result = result s \<rparr>,
            sessions)"
    by (simp add: GetSessionResult_execute_def findById_def)
  fix stt coach decode and input :: SubmitAnswerInput
  obtain r sessions' where
    run: "SubmitAnswer_execute stt coach decode input sessions = (r, sessions')"
    by (cases "SubmitAnswer_execute stt coach decode input sessions")
  have st: "status s \<noteq> completed \<Longrightarrow> status s = in_progress"
    by (cases "status s") simp_all
  from SubmitAnswer_execute_step [OF reachable_inv [OF assms(1)] run]
  have "\<exists>s'. sessions' sid = Some s' \<and>
             (status s' = completed \<longleftrightarrow> result s' \<noteq> None) \<and>
             (result s \<noteq> None \<longrightarrow> s' = s) \<and>
             (result s = None \<and> result s' \<noteq> None \<longrightarrow>
                status s = in_progress \<and> status s' = completed)"
  proof
    assume "\<exists>e. r = Inl e \<and> sessions' = sessions"
    with assms(2) c st show ?thesis by auto
  next
    assume "\<exists>res s0 s'. r = Inr res \<and> sessions (sessionId input) = Some s0 \<and>
            status s0 = in_progress \<and> sessions' = sessions(sessionId input \<mapsto> s') \<and>
            session_inv s' \<and> session_id s' = sessionId input \<and>
            questions s' = questions s0 \<and> questionIndex s0 \<le> questionIndex s' \<and>
            length (turns s') = length (turns s0) + (if awaitingFollowUp s0 then 0 else 1)"
    then obtain s0 s' where
      s0: "sessions (sessionId input) = Some s0" "status s0 = in_progress" and
      upd: "sessions' = sessions(sessionId input \<mapsto> s')" and
      inv': "session_inv s'"
      by blast
    show ?thesis
    proof (cases "sessionId input = sid")
      case True
      with s0 assms(2) have "s0 = s" by simp
      with s0 c have "result s = None" "status s = in_progress" by auto
      moreover from inv' have "status s' = completed \<longleftrightarrow> result s' \<noteq> None"
        by (simp add: session_inv_def)
      ultimately show ?thesis using upd True by auto
    next
      case False
      with upd assms(2) c st show ?thesis by auto
    qed
  qed
  with run show "\<exists>s'. snd (SubmitAnswer_execute stt coach decode input sessions) sid = Some s' \<and>
             (status s' = completed \<longleftrightarrow> result s' \<noteq> None) \<and>
             (result s \<noteq> None \<longrightarrow> s' = s) \<and>
             (result s = None \<and> result s' \<noteq> None \<longrightarrow>
                status s = in_progress \<and> status s' = completed)"
    by simp
qed

theorem completed_iff_result_witness:
  "reachable repo2 \<and> repo2 (js ''s-1'') = Some session2 \<and>
   status session2 = completed \<and> result session2 = Some feedback2 \<and>
   GetSessionResult_execute (js ''s-1'') repo2 =
     (Inr \<lparr> srv_sessionId = js ''s-1'', srv_status = completed, srv_result = Some feedback2 \<rparr>,
      repo2)"
proof -
  have r: "reachable repo2" by (rule reachable_repo2)
  have l: "repo2 (js ''s-1'') = Some session2" by (simp add: repo2_eq)
  have res: "result session2 = Some feedback2" by (simp add: session2_def session0_def)
  from completed_iff_result [OF r l] res
  have "status session2 = completed" and
    "GetSessionResult_execute (js ''s-1'') repo2 =
       (Inr \<lparr> srv_sessionId = js ''s-1'', srv_status = status session2,
              srv_result = result session2 \<rparr>, repo2)"
    by simp_all
  with r l res show ?thesis by simp
qed

section \<open>The index and the pending follow-up\<close>

text \<open>
  Claim C6: in every stored session \<open>questionIndex \<le> questions.length\<close>, and
  \<open>awaitingFollowUp\<close> is true if and only if \<open>pendingFollowUpQuestion\<close> is not \<open>null\<close>;
  and whatever a \<open>SubmitAnswer\<close> does, the session is still stored afterwards, with the
  same questions and an index that is not smaller.
\<close>

theorem index_bounded_and_monotone:
  assumes "reachable sessions" and "sessions sid = Some s"
  shows "questionIndex s \<le> length (questions s) \<and>
         (awaitingFollowUp s \<longleftrightarrow> pendingFollowUpQuestion s \<noteq> None) \<and>
         (\<forall>stt coach decode input.
            \<exists>s'. snd (SubmitAnswer_execute stt coach decode input sessions) sid = Some s' \<and>
                 questions s' = questions s \<and>
                 questionIndex s \<le> questionIndex s' \<and>
                 questionIndex s' \<le> length (questions s') \<and>
                 (awaitingFollowUp s' \<longleftrightarrow> pendingFollowUpQuestion s' \<noteq> None))"
proof (intro conjI allI)
  from reachable_session_inv [OF assms]
  have inv: "session_inv s" by simp
  then show b: "questionIndex s \<le> length (questions s)"
    and a: "awaitingFollowUp s \<longleftrightarrow> pendingFollowUpQuestion s \<noteq> None"
    by (simp_all add: session_inv_def)
  fix stt coach decode and input :: SubmitAnswerInput
  obtain r sessions' where
    run: "SubmitAnswer_execute stt coach decode input sessions = (r, sessions')"
    by (cases "SubmitAnswer_execute stt coach decode input sessions")
  have "reachable sessions'"
    using reachable.submitted [OF assms(1), of stt coach decode input] run by simp
  then have inv': "\<And>s'. sessions' sid = Some s' \<Longrightarrow> session_inv s'"
    using reachable_session_inv by blast
  from SubmitAnswer_execute_step [OF reachable_inv [OF assms(1)] run] assms(2)
  obtain s' where s': "sessions' sid = Some s'" "questions s' = questions s"
    "questionIndex s \<le> questionIndex s'"
    by (cases "sessionId input = sid") auto
  from inv' [OF s'(1)] have "questionIndex s' \<le> length (questions s')"
    "awaitingFollowUp s' \<longleftrightarrow> pendingFollowUpQuestion s' \<noteq> None"
    by (simp_all add: session_inv_def)
  with s' run show "\<exists>s'. snd (SubmitAnswer_execute stt coach decode input sessions) sid = Some s' \<and>
                 questions s' = questions s \<and>
                 questionIndex s \<le> questionIndex s' \<and>
                 questionIndex s' \<le> length (questions s') \<and>
                 (awaitingFollowUp s' \<longleftrightarrow> pendingFollowUpQuestion s' \<noteq> None)"
    by simp
qed

theorem index_bounded_and_monotone_witness:
  "reachable repo1 \<and> repo1 (js ''s-1'') = Some session1 \<and>
   questionIndex session1 \<le> length (questions session1) \<and>
   awaitingFollowUp session1 \<and> pendingFollowUpQuestion session1 = Some (js ''Why?'') \<and>
   repo2 (js ''s-1'') = Some session2 \<and> questionIndex session1 \<le> questionIndex session2"
proof -
  have r: "reachable repo1" by (rule reachable_repo1)
  have l: "repo1 (js ''s-1'') = Some session1" by (simp add: repo1_eq)
  from index_bounded_and_monotone [OF r l]
  have "questionIndex session1 \<le> length (questions session1)" by blast
  with r l show ?thesis
    by (simp add: repo2_eq session1_def session2_def session0_def)
qed


section \<open>The follow-up guard of the current prompt\<close>

text \<open>
  Claim C10: \<open>GetCurrentPrompt\<close> answers with a follow-up prompt only for a session
  that is awaiting a follow-up and has a pending follow-up question, which is then the
  prompt. For a stored session that is awaiting a follow-up with none pending, the
  answer is never a follow-up prompt: once past the check for a completed session, it
  is the main-question branch, with prompt \<open>questions[questionIndex]\<close>.
\<close>

theorem follow_up_prompt_needs_pending_question:
  "(\<forall>res. fst (GetCurrentPrompt_execute sid sessions) = Inr res \<and>
          cpr_promptType res = follow_up \<longrightarrow>
      (\<exists>s q. sessions sid = Some s \<and> awaitingFollowUp s \<and>
             pendingFollowUpQuestion s = Some q \<and> prompt res = Some q)) \<and>
   (\<forall>s. sessions sid = Some s \<and> awaitingFollowUp s \<and> pendingFollowUpQuestion s = None \<longrightarrow>
      (\<forall>res. fst (GetCurrentPrompt_execute sid sessions) = Inr res \<longrightarrow>
             cpr_promptType res \<noteq> follow_up) \<and>
      (status s \<noteq> completed \<longrightarrow>
         fst (GetCurrentPrompt_execute sid sessions) =
           Inr \<lparr> cpr_sessionId = session_id s, cpr_status = status s,
                 prompt = at_index (questions s) (questionIndex s),
                 cpr_promptType = question_prompt,
                 cpr_questionNumber = questionIndex s + 1,
                 totalQuestions = length (questions s) \<rparr>))"
  by (cases "sessions sid")
     (auto simp: GetCurrentPrompt_execute_def findById_def truthy_def
           split: if_splits option.splits)

theorem follow_up_prompt_needs_pending_question_witness:
  "awaitingFollowUp odd_session \<and> pendingFollowUpQuestion odd_session = None \<and>
   fst (GetCurrentPrompt_execute (js ''s-1'') [js ''s-1'' \<mapsto> odd_session]) =
     Inr \<lparr> cpr_sessionId = js ''s-1'', cpr_status = in_progress,
           prompt = Some (js ''Tell me about yourself and your current backend focus.''),
           cpr_promptType = question_prompt, cpr_questionNumber = 1, totalQuestions = 1 \<rparr>"
proof -
  have h: "[js ''s-1'' \<mapsto> odd_session] (js ''s-1'') = Some odd_session \<and>
           awaitingFollowUp odd_session \<and> pendingFollowUpQuestion odd_session = None"
    and st: "status odd_session \<noteq> completed"
    by (simp_all add: odd_session_def session0_def)
  from follow_up_prompt_needs_pending_question [of "js ''s-1''" "[js ''s-1'' \<mapsto> odd_session]"] h st
  have "fst (GetCurrentPrompt_execute (js ''s-1'') [js ''s-1'' \<mapsto> odd_session]) =
           Inr \<lparr> cpr_sessionId = session_id odd_session, cpr_status = status odd_session,
                 prompt = at_index (questions odd_session) (questionIndex odd_session),
                 cpr_promptType = question_prompt,
                 cpr_questionNumber = questionIndex odd_session + 1,
                 totalQuestions = length (questions odd_session) \<rparr>"
    by blast
  with h show ?thesis by (simp add: odd_session_def session0_def at_index_def)
qed


section \<open>Follow-ups switched off\<close>

lemma completeIfFinished_succeeds:
  assumes "questionIndex s < length (questions s) \<or>
           (\<forall>summary transcript. generateFeedback coach summary transcript \<noteq> None)"
  shows "\<exists>s' c. completeIfFinished coach s = Inr (s', c)"
proof (cases "questionIndex s < length (questions s)")
  case True
  then show ?thesis by (simp add: completeIfFinished_def)
next
  case False
  with assms have "\<forall>summary transcript. generateFeedback coach summary transcript \<noteq> None"
    by simp
  with False show ?thesis
    by (auto simp: completeIfFinished_def Let_def split: option.splits)
qed

text \<open>
  Claim C4: in a session with \<open>allowFollowUps = false\<close>, a main answer (the session is
  not awaiting a follow-up) never sets \<open>awaitingFollowUp\<close>, whatever the coach
  replies. If the submission fails nothing is stored. If it succeeds, the stored
  session has one more turn, whose \<open>followUpQuestion\<close> is \<open>null\<close>, is still not
  awaiting a follow-up and has no new pending question, and the response is not a
  follow-up prompt. And it does succeed, recording exactly that turn and advancing the
  index, whenever the request is valid, the question exists, the reply call returns and
  the feedback call (needed only after the last question) does not throw.
\<close>

theorem main_answer_without_followups:
  assumes "sessions (sessionId input) = Some s"
    and "\<not> allowFollowUps s" and "\<not> awaitingFollowUp s"
    and "SubmitAnswer_execute stt coach decode input sessions = (r, sessions')"
  shows "(\<forall>e. r = Inl e \<longrightarrow> sessions' = sessions) \<and>
         (\<forall>res. r = Inr res \<longrightarrow>
            (\<exists>s' t. sessions' = sessions(session_id s \<mapsto> s') \<and>
               turns s' = turns s @ [t] \<and> followUpQuestion t = None \<and>
               \<not> awaitingFollowUp s' \<and>
               pendingFollowUpQuestion s' = pendingFollowUpQuestion s \<and>
               promptType res \<noteq> follow_up)) \<and>
         (\<forall>d tr q reply.
            status s \<noteq> completed \<and>
            normalizeDelay (responseDelaySec input) = Inr d \<and>
            resolveTranscript stt decode input = Inr tr \<and>
            at_index (questions s) (questionIndex s) = Some q \<and> q \<noteq> [] \<and>
            generateInterviewerReply coach q tr = Some reply \<and>
            (questionIndex s + 1 < length (questions s) \<or>
             (\<forall>summary transcript. generateFeedback coach summary transcript \<noteq> None)) \<longrightarrow>
            (\<exists>res s'. r = Inr res \<and> sessions' = sessions(session_id s \<mapsto> s') \<and>
               turns s' = turns s @
                 [\<lparr> question = q, answer = tr, followUpQuestion = None,
                    followUpAnswer = None, mainResponseDelaySec = d,
                    followUpResponseDelaySec = None \<rparr>] \<and>
               questionIndex s' = questionIndex s + 1 \<and>
               \<not> awaitingFollowUp s' \<and>
               pendingFollowUpQuestion s' = pendingFollowUpQuestion s \<and>
               usedTranscript res = tr \<and> interviewerMessage res = replyText reply \<and>
               promptType res \<noteq> follow_up))"
proof (intro conjI allI impI)
  fix e assume "r = Inl e"
  with assms(4) show "sessions' = sessions" by (auto dest: SubmitAnswer_execute_error)
next
  fix res assume "r = Inr res"
  with assms(4) have
    run: "SubmitAnswer_execute stt coach decode input sessions = (Inr res, sessions')"
    by simp
  from SubmitAnswer_execute_Inr [OF run] assms(1,3) obtain d tr where
    main: "submitMainAnswer coach s tr d sessions = (Inr res, sessions')"
    by (auto simp: findById_def)
  from submitMainAnswer_Inr [OF main] obtain q reply s' where
    q: "at_index (questions s) (questionIndex s) = Some q" and
    upd: "sessions' = sessions(session_id s \<mapsto> s')" and
    alt: "truthy (followUpQuestion (main_turn s q tr reply d)) \<or>
          \<not> truthy (followUpQuestion (main_turn s q tr reply d)) \<and>
          completeIfFinished coach
            (s\<lparr> turns := turns s @ [main_turn s q tr reply d],
                 questionIndex := questionIndex s + 1 \<rparr>) = Inr (s', sar_result res) \<and>
          promptType res =
            (if status s' = completed then completed_prompt else question_prompt) \<and>
          nextPrompt res = (if status s' = completed then None
                            else at_index (questions s') (questionIndex s'))"
    by blast
  from assms(2) have none: "followUpQuestion (main_turn s q tr reply d) = None"
    by (simp add: main_turn_def)
  with alt have
    cf: "completeIfFinished coach
            (s\<lparr> turns := turns s @ [main_turn s q tr reply d],
                 questionIndex := questionIndex s + 1 \<rparr>) = Inr (s', sar_result res)" and
    pt: "promptType res =
           (if status s' = completed then completed_prompt else question_prompt)"
    by (simp_all add: truthy_def)
  from completeIfFinished_Inr [OF cf] assms(3)
  have s': "turns s' = turns s @ [main_turn s q tr reply d]" "\<not> awaitingFollowUp s'"
    "pendingFollowUpQuestion s' = pendingFollowUpQuestion s"
    by auto
  from pt have "promptType res \<noteq> follow_up" by (simp split: if_splits)
  then show "\<exists>s' t. sessions' = sessions(session_id s \<mapsto> s') \<and>
               turns s' = turns s @ [t] \<and> followUpQuestion t = None \<and>
               \<not> awaitingFollowUp s' \<and>
               pendingFollowUpQuestion s' = pendingFollowUpQuestion s \<and>
               promptType res \<noteq> follow_up"
    using upd s' none by blast
next
  fix d tr q reply
  assume h: "status s \<noteq> completed \<and>
            normalizeDelay (responseDelaySec input) = Inr d \<and>
            resolveTranscript stt decode input = Inr tr \<and>
            at_index (questions s) (questionIndex s) = Some q \<and> q \<noteq> [] \<and>
            generateInterviewerReply coach q tr = Some reply \<and>
            (questionIndex s + 1 < length (questions s) \<or>
             (\<forall>summary transcript. generateFeedback coach summary transcript \<noteq> None))"
  let ?t = "\<lparr> question = q, answer = tr, followUpQuestion = None,
              followUpAnswer = None, mainResponseDelaySec = d,
              followUpResponseDelaySec = None \<rparr>"
  let ?s2 = "s\<lparr> turns := turns s @ [?t], questionIndex := questionIndex s + 1 \<rparr>"
  from h assms(1,3,4) have
    main: "submitMainAnswer coach s tr d sessions = (r, sessions')"
    by (simp add: SubmitAnswer_execute_def findById_def)
  from h have "questionIndex ?s2 < length (questions ?s2) \<or>
               (\<forall>summary transcript. generateFeedback coach summary transcript \<noteq> None)"
    by simp
  from completeIfFinished_succeeds [OF this] obtain s3 c where
    cf: "completeIfFinished coach ?s2 = Inr (s3, c)"
    by blast
  from completeIfFinished_Inr [OF cf] assms(3)
  have s3: "turns s3 = turns s @ [?t]" "questionIndex s3 = questionIndex s + 1"
    "\<not> awaitingFollowUp s3" "pendingFollowUpQuestion s3 = pendingFollowUpQuestion s"
    "session_id s3 = session_id s"
    by auto
  from main h assms(2) cf have
    r: "r = Inr \<lparr> sar_sessionId = session_id s3, sar_status = status s3,
                  usedTranscript = tr, interviewerMessage = replyText reply,
                  nextPrompt = (if status s3 = completed then None
                                else at_index (questions s3) (questionIndex s3)),
                  promptType = (if status s3 = completed
                                then completed_prompt else question_prompt),
                  sar_result = c \<rparr>"
    and upd: "sessions' = save s3 sessions"
    by (simp_all add: submitMainAnswer_def Let_def truthy_def)
  from upd s3(5) have "sessions' = sessions(session_id s \<mapsto> s3)" by (simp add: save_def)
  with r s3 show "\<exists>res s'. r = Inr res \<and> sessions' = sessions(session_id s \<mapsto> s') \<and>
               turns s' = turns s @ [?t] \<and>
               questionIndex s' = questionIndex s + 1 \<and>
               \<not> awaitingFollowUp s' \<and>
               pendingFollowUpQuestion s' = pendingFollowUpQuestion s \<and>
               usedTranscript res = tr \<and> interviewerMessage res = replyText reply \<and>
               promptType res \<noteq> follow_up"
    by auto
qed

theorem main_answer_without_followups_witness:
  "SubmitAnswer_execute sample_stt sample_coach sample_decode
     (text_answer ''I build APIs.'' (Some (Finite 2))) [js ''s-1'' \<mapsto> plain0]
     = (Inr plain_result1, [js ''s-1'' \<mapsto> plain1]) \<and>
   generateInterviewerReply sample_coach
     (js ''Tell me about yourself and your current backend focus.'') (js ''I build APIs.'')
     = Some \<lparr> replyText = js ''Thanks.'', reply_followUpQuestion = Some (js ''Why?'') \<rparr> \<and>
   \<not> allowFollowUps plain0 \<and> \<not> awaitingFollowUp plain0 \<and>
   turns plain1 = turns plain0 @
     [\<lparr> question = js ''Tell me about yourself and your current backend focus.'',
         answer = js ''I build APIs.'', followUpQuestion = None, followUpAnswer = None,
         mainResponseDelaySec = Finite 2, followUpResponseDelaySec = None \<rparr>] \<and>
   questionIndex plain1 = questionIndex plain0 + 1 \<and>
   \<not> awaitingFollowUp plain1 \<and> promptType plain_result1 \<noteq> follow_up"
proof -
  let ?input = "text_answer ''I build APIs.'' (Some (Finite 2))"
  let ?q = "js ''Tell me about yourself and your current backend focus.''"
  let ?reply = "\<lparr> replyText = js ''Thanks.'', reply_followUpQuestion = Some (js ''Why?'') \<rparr>"
  have l: "[js ''s-1'' \<mapsto> plain0] (sessionId ?input) = Some plain0"
    by (simp add: text_answer_def)
  have a: "\<not> allowFollowUps plain0" and b: "\<not> awaitingFollowUp plain0"
    by (simp_all add: plain0_def)
  have reply: "generateInterviewerReply sample_coach ?q (js ''I build APIs.'') = Some ?reply"
    by (simp add: sample_coach_def)
  have pre: "status plain0 \<noteq> completed \<and>
        normalizeDelay (responseDelaySec ?input) = Inr (Finite 2) \<and>
        resolveTranscript sample_stt sample_decode ?input = Inr (js ''I build APIs.'') \<and>
        at_index (questions plain0) (questionIndex plain0) = Some ?q \<and> ?q \<noteq> [] \<and>
        generateInterviewerReply sample_coach ?q (js ''I build APIs.'') = Some ?reply \<and>
        (questionIndex plain0 + 1 < length (questions plain0) \<or>
         (\<forall>summary transcript. generateFeedback sample_coach summary transcript \<noteq> None))"
    by (simp add: plain0_def text_answer_def normalizeDelay_def resolveTranscript_def
        truthy_def trim_samples js_not_empty at_index_def sample_coach_def
        floor_numeral_div_rat fl_small_integers)
  from main_answer_without_followups [OF l a b plain_run1_eq] pre
  obtain res s' where
    res: "Inr plain_result1 = Inr res" and
    upd: "[js ''s-1'' \<mapsto> plain1] = [js ''s-1'' \<mapsto> plain0](session_id plain0 \<mapsto> s')" and
    rest: "turns s' = turns plain0 @
             [\<lparr> question = ?q, answer = js ''I build APIs.'', followUpQuestion = None,
                 followUpAnswer = None, mainResponseDelaySec = Finite 2,
                 followUpResponseDelaySec = None \<rparr>]"
      "questionIndex s' = questionIndex plain0 + 1" "\<not> awaitingFollowUp s'"
      "promptType res \<noteq> follow_up"
    by blast
  from upd have "([js ''s-1'' \<mapsto> plain1]) (js ''s-1'') =
                 ([js ''s-1'' \<mapsto> plain0](session_id plain0 \<mapsto> s')) (js ''s-1'')"
    by simp
  then have "s' = plain1" by (simp add: plain0_def)
  with rest res a b reply show ?thesis
    by (simp add: plain_run1_eq)
qed

section \<open>The current prompt\<close>

text \<open>
  Claim C9: \<open>GetCurrentPrompt\<close> returns the repository unchanged; it fails with
  \<open>NotFoundError\<close> when the session is not stored; and for a stored session it returns
  \<open>null\<close> / \<open>completed\<close> / question number = total when the status is \<open>completed\<close>,
  else the pending follow-up question / \<open>follow_up\<close> / \<open>questionIndex + 1\<close> when
  \<open>awaitingFollowUp\<close>, else \<open>questions[questionIndex]\<close> / \<open>question\<close> /
  \<open>questionIndex + 1\<close>. The stored sessions are those the operations produce: there a
  pending follow-up question is a non-empty string, and \<open>questions[questionIndex]\<close> is
  an element of the list whenever the session has questions and is not completed.
\<close>

theorem current_prompt_spec:
  assumes "reachable sessions"
  shows "snd (GetCurrentPrompt_execute sid sessions) = sessions \<and>
         (sessions sid = None \<longrightarrow>
            fst (GetCurrentPrompt_execute sid sessions) =
              Inl (NotFoundError ''Session not found.'')) \<and>
         (\<forall>s. sessions sid = Some s \<longrightarrow>
            fst (GetCurrentPrompt_execute sid sessions) =
              Inr (if status s = completed then
                     \<lparr> cpr_sessionId = sid, cpr_status = completed, prompt = None,
                       cpr_promptType = completed_prompt,
                       cpr_questionNumber = length (questions s),
                       totalQuestions = length (questions s) \<rparr>
                   else if awaitingFollowUp s then
                     \<lparr> cpr_sessionId = sid, cpr_status = in_progress,
                       prompt = pendingFollowUpQuestion s,
                       cpr_promptType = follow_up,
                       cpr_questionNumber = questionIndex s + 1,
                       totalQuestions = length (questions s) \<rparr>
                   else
                     \<lparr> cpr_sessionId = sid, cpr_status = in_progress,
                       prompt = at_index (questions s) (questionIndex s),
                       cpr_promptType = question_prompt,
                       cpr_questionNumber = questionIndex s + 1,
                       totalQuestions = length (questions s) \<rparr>) \<and>
            (awaitingFollowUp s \<longrightarrow>
               (\<exists>q. pendingFollowUpQuestion s = Some q \<and> q \<noteq> [])) \<and>
            (questions s \<noteq> [] \<and> status s \<noteq> completed \<longrightarrow>
               at_index (questions s) (questionIndex s) =
                 Some (questions s ! questionIndex s)))"
proof (intro conjI allI impI)
  show "snd (GetCurrentPrompt_execute sid sessions) = sessions"
    by (simp add: GetCurrentPrompt_execute_def split: option.splits)
next
  assume "sessions sid = None"
  then show "fst (GetCurrentPrompt_execute sid sessions) =
               Inl (NotFoundError ''Session not found.'')"
    by (simp add: GetCurrentPrompt_execute_def findById_def)
next
  fix s assume s: "sessions sid = Some s"
  from reachable_session_inv [OF assms s]
  have inv: "session_inv s" and id: "session_id s = sid" by simp_all
  have st: "status s \<noteq> completed \<Longrightarrow> status s = in_progress"
    by (cases "status s") simp_all
  from inv have pend: "awaitingFollowUp s \<Longrightarrow> truthy (pendingFollowUpQuestion s)"
    by (simp add: session_inv_def)
  show "fst (GetCurrentPrompt_execute sid sessions) =
              Inr (if status s = completed then
                     \<lparr> cpr_sessionId = sid, cpr_status = completed, prompt = None,
                       cpr_promptType = completed_prompt,
                       cpr_questionNumber = length (questions s),
                       totalQuestions = length (questions s) \<rparr>
                   else if awaitingFollowUp s then
                     \<lparr> cpr_sessionId = sid, cpr_status = in_progress,
                       prompt = pendingFollowUpQuestion s,
                       cpr_promptType = follow_up,
                       cpr_questionNumber = questionIndex s + 1,
                       totalQuestions = length (questions s) \<rparr>
                   else
                     \<lparr> cpr_sessionId = sid, cpr_status = in_progress,
                       prompt = at_index (questions s) (questionIndex s),
                       cpr_promptType = question_prompt,
                       cpr_questionNumber = questionIndex s + 1,
                       totalQuestions = length (questions s) \<rparr>)"
    using s id st pend
    by (simp add: GetCurrentPrompt_execute_def findById_def)
  {
    assume "awaitingFollowUp s"
    with pend show "\<exists>q. pendingFollowUpQuestion s = Some q \<and> q \<noteq> []"
      by (auto simp: truthy_def split: option.splits)
  }
  {
    assume "questions s \<noteq> [] \<and> status s \<noteq> completed"
    with inv have "questionIndex s < length (questions s)"
      by (auto simp: session_inv_def)
    then show "at_index (questions s) (questionIndex s) =
                 Some (questions s ! questionIndex s)"
      by (simp add: at_index_def)
  }
qed

theorem current_prompt_spec_witness:
  "reachable repo1 \<and> repo1 (js ''s-1'') = Some session1 \<and>
   GetCurrentPrompt_execute (js ''s-1'') repo1 =
     (Inr \<lparr> cpr_sessionId = js ''s-1'', cpr_status = in_progress,
            prompt = Some (js ''Why?''), cpr_promptType = follow_up,
            cpr_questionNumber = 1, totalQuestions = 1 \<rparr>,
      repo1)"
proof -
  have r: "reachable repo1" by (rule reachable_repo1)
  have l: "repo1 (js ''s-1'') = Some session1" by (simp add: repo1_eq)
  from current_prompt_spec [OF r, of "js ''s-1''"] l
  have "snd (GetCurrentPrompt_execute (js ''s-1'') repo1) = repo1"
    and "fst (GetCurrentPrompt_execute (js ''s-1'') repo1) =
          Inr \<lparr> cpr_sessionId = js ''s-1'', cpr_status = in_progress,
                prompt = Some (js ''Why?''), cpr_promptType = follow_up,
                cpr_questionNumber = 1, totalQuestions = 1 \<rparr>"
    by (simp_all add: session1_def session0_def)
  with r l show ?thesis by (simp add: prod_eq_iff)
qed

section \<open>Creating a session\<close>

lemma take_min_length: "take (min (length xs) n) xs = take n xs"
  by (cases "n \<le> length xs") (simp_all add: min_def)

lemma nat_floor_le_10:
  fixes x :: rat
  assumes "x < 10"
  shows "nat \<lfloor>x\<rfloor> \<le> 10"
proof -
  from assms have "\<lfloor>x\<rfloor> < 10" by (simp add: floor_less_iff)
  then show ?thesis by arith
qed

text \<open>
  Claim C8, as the specification states it, says that for every input the count is
  clamped to between 1 and the catalog length. A count that is \<open>NaN\<close> passes through
  \<open>Math.min\<close> and \<open>Math.max\<close> as \<open>NaN\<close>, and \<open>slice(0, NaN)\<close> is empty: the
  new session has no questions.
\<close>

theorem create_session_nan_counterexample:
  "questions (fst (CreateSession_execute (js ''s-2'') (js ''2026-01-01T00:00:00.000Z'')
                     nan_input Map.empty)) = []"
  by (simp add: CreateSession_execute_def nan_input_def slice_from_start_def Let_def)

text \<open>
  Claim C8, amended: for every \<open>Create\<close> input whose \<open>questionCount\<close> is absent or is
  a number other than \<open>NaN\<close>, \<open>Create\<close> does not fail and the number of questions is
  the requested count, 3 when absent, raised to 1 when below 1, capped at the catalog
  length (10) when above it, and with any fraction dropped; so 50 gives the whole
  catalog. The questions are that prefix of the catalog. The new session has
  \<open>questionIndex = 0\<close>, \<open>awaitingFollowUp = false\<close>, no pending follow-up, no turns,
  no result and status \<open>in_progress\<close>; \<open>allowFollowUps\<close> defaults to true; and the
  session is stored under its identifier.
\<close>

theorem create_session_spec:
  assumes "CreateSession_execute uuid now input sessions = (session, sessions')"
    and "questionCount input \<noteq> Some NaN"
  shows "length (questions session) =
           (case questionCount input of
              None \<Rightarrow> 3
            | Some (Finite x) \<Rightarrow> (if x < 1 then 1 else if 10 \<le> x then 10 else nat \<lfloor>x\<rfloor>)
            | Some Infinity \<Rightarrow> 10
            | Some NegInfinity \<Rightarrow> 1
            | Some NaN \<Rightarrow> 0) \<and>
         1 \<le> length (questions session) \<and>
         length (questions session) \<le> length QUESTION_BANK \<and>
         length QUESTION_BANK = 10 \<and>
         questions session = take (length (questions session)) QUESTION_BANK \<and>
         (questionCount input = Some (Finite 50) \<longrightarrow> questions session = QUESTION_BANK) \<and>
         (questionCount input = Some (Finite 0) \<longrightarrow> length (questions session) = 1) \<and>
         (questionCount input = None \<longrightarrow> length (questions session) = 3) \<and>
         questionIndex session = 0 \<and> \<not> awaitingFollowUp session \<and>
         pendingFollowUpQuestion session = None \<and> turns session = [] \<and>
         result session = None \<and> status session = in_progress \<and>
         session_id session = uuid \<and> createdAt session = now \<and>
         allowFollowUps session =
           (case input_allowFollowUps input of None \<Rightarrow> True | Some b \<Rightarrow> b) \<and>
         sessions' = sessions(uuid \<mapsto> session)"
proof -
  define requested where
    "requested = (case questionCount input of Some n \<Rightarrow> n | None \<Rightarrow> Finite 3)"
  define count where
    "count = Math_max (Finite 1) (Math_min requested (Finite (of_nat (length QUESTION_BANK))))"
  from assms(1) have session: "session =
      \<lparr> session_id = uuid, createdAt = now, status = in_progress,
        allowFollowUps = (case input_allowFollowUps input of None \<Rightarrow> True | Some b \<Rightarrow> b),
        questions = slice_from_start QUESTION_BANK count, questionIndex = 0,
        awaitingFollowUp = False, pendingFollowUpQuestion = None, turns = [],
        result = None \<rparr>"
    and store: "sessions' = sessions(uuid \<mapsto> session)"
    by (auto simp: CreateSession_execute_def Let_def create_def count_def requested_def
             split: option.splits)
  have qs: "questions session = slice_from_start QUESTION_BANK count"
    by (simp add: session)
  from assms(2) have req: "requested \<noteq> NaN"
    by (auto simp: requested_def split: option.splits)
  have len: "length (questions session) =
           (case requested of
              Finite x \<Rightarrow> (if x < 1 then 1 else if 10 \<le> x then 10 else nat \<lfloor>x\<rfloor>)
            | Infinity \<Rightarrow> 10
            | NegInfinity \<Rightarrow> 1
            | NaN \<Rightarrow> 0)"
    and pre: "questions session = take (length (questions session)) QUESTION_BANK"
  proof -
    show "length (questions session) =
           (case requested of
              Finite x \<Rightarrow> (if x < 1 then 1 else if 10 \<le> x then 10 else nat \<lfloor>x\<rfloor>)
            | Infinity \<Rightarrow> 10
            | NegInfinity \<Rightarrow> 1
            | NaN \<Rightarrow> 0)"
    proof (cases requested)
      case (Finite x)
      have "1 \<le> max 1 (min x 10)" by simp
      then have nn: "0 \<le> max 1 (min x 10)" by linarith
      have "count = Finite (max 1 (min x 10))"
        by (simp add: count_def Finite length_QUESTION_BANK)
      then have "length (questions session) = min 10 (nat \<lfloor>max 1 (min x 10)\<rfloor>)"
        using nn by (simp add: qs slice_from_start_def length_QUESTION_BANK min.commute)
      also have "\<dots> = (if x < 1 then 1 else if 10 \<le> x then 10 else nat \<lfloor>x\<rfloor>)"
      proof (cases "x < 1")
        case True
        then have "max 1 (min x 10) = 1" by simp
        then show ?thesis using True by simp
      next
        case False
        note x1 = this
        show ?thesis
        proof (cases "10 \<le> x")
          case True
          then have "max 1 (min x 10) = 10" by simp
          then show ?thesis using x1 True by simp
        next
          case False
          with x1 have m: "max 1 (min x 10) = x" by simp
          from False have "nat \<lfloor>x\<rfloor> \<le> 10" by (simp add: nat_floor_le_10)
          with m x1 False show ?thesis by simp
        qed
      qed
      finally show ?thesis by (simp add: Finite)
    next
      case NaN
      with req show ?thesis by simp
    next
      case Infinity
      then show ?thesis
        by (simp add: qs count_def slice_from_start_def length_QUESTION_BANK)
    next
      case NegInfinity
      then show ?thesis
        by (simp add: qs count_def slice_from_start_def length_QUESTION_BANK)
    qed
    show "questions session = take (length (questions session)) QUESTION_BANK"
      by (cases count) (simp_all add: qs slice_from_start_def Let_def take_min_length)
  qed
  have range: "1 \<le> length (questions session)" "length (questions session) \<le> 10"
  proof -
    show "1 \<le> length (questions session)"
      using req unfolding len by (cases requested) (auto simp: le_nat_iff)
    show "length (questions session) \<le> 10"
      using req unfolding len by (cases requested) (auto intro: nat_floor_le_10)
  qed
  have full: "questionCount input = Some (Finite 50) \<longrightarrow> questions session = QUESTION_BANK"
  proof
    assume "questionCount input = Some (Finite 50)"
    then have "length (questions session) = 10" by (simp add: len requested_def)
    with pre show "questions session = QUESTION_BANK"
      by (simp add: length_QUESTION_BANK)
  qed
  have "length (questions session) =
           (case questionCount input of
              None \<Rightarrow> 3
            | Some (Finite x) \<Rightarrow> (if x < 1 then 1 else if 10 \<le> x then 10 else nat \<lfloor>x\<rfloor>)
            | Some Infinity \<Rightarrow> 10
            | Some NegInfinity \<Rightarrow> 1
            | Some NaN \<Rightarrow> 0)"
    by (simp add: len requested_def split: option.splits number.splits)
  moreover have "questionCount input = Some (Finite 0) \<longrightarrow> length (questions session) = 1"
    by (simp add: len requested_def)
  moreover have "questionCount input = None \<longrightarrow> length (questions session) = 3"
    by (simp add: len requested_def)
  ultimately show ?thesis
    using range pre full store by (simp add: length_QUESTION_BANK) (simp add: session)
qed

theorem create_session_spec_witness:
  "questions (fst (CreateSession_execute (js ''s-2'') (js ''2026-01-01T00:00:00.000Z'')
                     \<lparr> questionCount = Some (Finite 50), input_allowFollowUps = None \<rparr>
                     Map.empty))
     = QUESTION_BANK \<and>
   length (questions (fst (CreateSession_execute (js ''s-2'') (js ''2026-01-01T00:00:00.000Z'')
                     \<lparr> questionCount = Some (Finite 50), input_allowFollowUps = None \<rparr>
                     Map.empty)))
     = 10"
proof -
  obtain session sessions' where
    run: "CreateSession_execute (js ''s-2'') (js ''2026-01-01T00:00:00.000Z'')
            \<lparr> questionCount = Some (Finite 50), input_allowFollowUps = None \<rparr> Map.empty
          = (session, sessions')"
    by (cases "CreateSession_execute (js ''s-2'') (js ''2026-01-01T00:00:00.000Z'')
                 \<lparr> questionCount = Some (Finite 50), input_allowFollowUps = None \<rparr>
                 Map.empty")
  have nn: "questionCount \<lparr> questionCount = Some (Finite 50), input_allowFollowUps = None \<rparr>
              \<noteq> Some NaN"
    by simp
  from create_session_spec [OF run nn]
  have "questions session = QUESTION_BANK" and "length QUESTION_BANK = 10" by simp_all
  with run show ?thesis by simp
qed

section \<open>The timing aggregator\<close>

lemma round_half_up_close:
  fixes y :: rat
  shows "\<bar>of_int \<lfloor>y * 100 + 1 / 2\<rfloor> / 100 - y\<bar> \<le> 1 / 200"
proof -
  define n where "n = \<lfloor>y * 100 + 1 / 2\<rfloor>"
  have lo: "of_int n \<le> y * 100 + 1 / 2" and hi: "y * 100 + 1 / 2 < of_int n + 1"
    unfolding n_def by linarith+
  from lo have "of_int n / 100 - y \<le> 1 / 200" by linarith
  moreover from hi have "- (1 / 200) \<le> of_int n / 100 - y" by linarith
  ultimately have "\<bar>of_int n / 100 - y\<bar> \<le> 1 / 200" by linarith
  then show ?thesis by (simp add: n_def)
qed

lemma toFixed2_rounds:
  assumes "\<bar>x\<bar> < 10 ^ 21"
  shows "\<exists>k::int. toFixed2 (Finite x) = fl (of_int k / 100) \<and> \<bar>of_int k / 100 - x\<bar> \<le> 1 / 200"
proof (cases "x < 0")
  case True
  let ?k = "- \<lfloor>(- x) * 100 + 1 / 2\<rfloor>"
  from True assms have "toFixed2 (Finite x) = fl (of_int ?k / 100)" by simp
  moreover have "of_int ?k / 100 - x = - (of_int \<lfloor>(- x) * 100 + 1 / 2\<rfloor> / 100 - (- x))"
    by simp
  then have "\<bar>of_int ?k / 100 - x\<bar> = \<bar>of_int \<lfloor>(- x) * 100 + 1 / 2\<rfloor> / 100 - (- x)\<bar>"
    by (simp only: abs_minus_cancel)
  then have "\<bar>of_int ?k / 100 - x\<bar> \<le> 1 / 200"
    using round_half_up_close [of "- x"] by simp
  ultimately show ?thesis by blast
next
  case False
  let ?k = "\<lfloor>x * 100 + 1 / 2\<rfloor>"
  from False assms have "toFixed2 (Finite x) = fl (of_int ?k / 100)" by simp
  moreover have "\<bar>of_int ?k / 100 - x\<bar> \<le> 1 / 200" by (rule round_half_up_close)
  ultimately show ?thesis by blast
qed

lemma length_turn_delays:
  "length (turn_delays t) = (if followUpResponseDelaySec t = None then 1 else 2)"
  by (simp add: turn_delays_def Let_def split: option.splits)

lemma length_flatten_delays:
  "length (flatten_delays ts) =
     length ts + length (filter (\<lambda>t. followUpResponseDelaySec t \<noteq> None) ts)"
  by (induction ts) (simp_all add: flatten_delays_def length_turn_delays)

lemma flatten_ten_turns: "flatten_delays ten_turns = map Finite (3 / 4 # replicate 9 0)"
  by (simp add: ten_turns_def slow_turn_def quick_turn_def timing_turn1_def
      flatten_delays_def turn_delays_def eval_nat_numeral)

text \<open>
  Claim C3, as the specification states it, says that \<open>avgResponseDelaySec\<close> is the
  arithmetic mean of the delays rounded to two decimals. For the delays 0.75 and nine
  times 0 the mean is 0.075, which rounds to 0.08. The source divides in double
  precision: the quotient of 0.75 by 10 is the double just below 0.075, \<open>toFixed(2)\<close>
  prints it as 0.07, and the summary holds the double 0.07.
\<close>

theorem timing_average_counterexample:
  "flatten_delays ten_turns = map Finite (3 / 4 # replicate 9 0) \<and>
   spec_avgResponseDelaySec (3 / 4 # replicate 9 0) = 8 / 100 \<and>
   avgResponseDelaySec (computeTimingSummary ten_turns) = fl (7 / 100) \<and>
   fl (7 / 100) \<noteq> fl (8 / 100) \<and> fl (7 / 100) \<noteq> Finite (8 / 100)"
proof -
  have sum: "foldl num_add (Finite 0) (map Finite (3 / 4 # replicate 9 0)) = Finite (3 / 4)"
    by (simp add: eval_nat_numeral fl_3_4)
  have "avgResponseDelaySec (computeTimingSummary ten_turns) =
          toFixed2 (num_div (foldl num_add (Finite 0) (map Finite (3 / 4 # replicate 9 0)))
                            (Finite 10))"
    unfolding computeTimingSummary_def flatten_ten_turns by (simp add: Let_def)
  then have avg: "avgResponseDelaySec (computeTimingSummary ten_turns) = fl (7 / 100)"
    unfolding sum by (simp add: fl_3_40 floor_numeral_div_rat)
  have spec: "spec_avgResponseDelaySec (3 / 4 # replicate 9 0) = 8 / 100"
    by (simp add: spec_avgResponseDelaySec_def sum_list_replicate floor_numeral_div_rat)
  have ne: "fl (7 / 100) \<noteq> fl (8 / 100)" "fl (7 / 100) \<noteq> Finite (8 / 100)"
    unfolding fl_hundredths by simp_all
  from flatten_ten_turns spec avg ne show ?thesis by blast
qed

text \<open>
  Claim C3, amended: the aggregator flattens the main delay of every turn and the
  follow-up delay of every turn that has one, in order, into one sequence (so a turn
  with an answered follow-up counts twice). \<open>totalTurns\<close> is the length of that
  sequence and \<open>longPausesCount\<close> the number of its entries strictly greater than 4.
  \<open>avgResponseDelaySec\<close> is 0 when the sequence is empty; otherwise it is the mean as
  double-precision arithmetic computes it (the delays added from the left, each sum
  rounded to a double, and the total divided by the count and rounded again), rounded
  to two decimals by \<open>toFixed\<close>: when that mean is finite and below \<open>10 ^ 21\<close> in
  magnitude, the double nearest to a multiple of 1/100 that is at most 1/200 away from
  it. Turns with delays \<open>[2.0]\<close> and \<open>[5.0, 1.0]\<close> give \<open>totalTurns = 3\<close>, average
  2.67 (the double nearest to it) and one long pause.
\<close>

theorem timing_summary_spec:
  "flatten_delays ts =
     concat (map (\<lambda>t. mainResponseDelaySec t #
                       (case followUpResponseDelaySec t of None \<Rightarrow> [] | Some d \<Rightarrow> [d])) ts) \<and>
   totalTurns (computeTimingSummary ts) = length (flatten_delays ts) \<and>
   totalTurns (computeTimingSummary ts) =
     length ts + length (filter (\<lambda>t. followUpResponseDelaySec t \<noteq> None) ts) \<and>
   longPausesCount (computeTimingSummary ts) =
     length (filter (\<lambda>d. greater_than d 4) (flatten_delays ts)) \<and>
   (flatten_delays ts = [] \<longrightarrow> avgResponseDelaySec (computeTimingSummary ts) = Finite 0) \<and>
   (flatten_delays ts \<noteq> [] \<longrightarrow>
      avgResponseDelaySec (computeTimingSummary ts) =
        toFixed2 (num_div (foldl num_add (Finite 0) (flatten_delays ts))
                          (Finite (of_nat (length (flatten_delays ts)))))) \<and>
   (\<forall>q. flatten_delays ts \<noteq> [] \<and>
        num_div (foldl num_add (Finite 0) (flatten_delays ts))
                (Finite (of_nat (length (flatten_delays ts)))) = Finite q \<and>
        \<bar>q\<bar> < 10 ^ 21 \<longrightarrow>
        (\<exists>k::int. avgResponseDelaySec (computeTimingSummary ts) = fl (of_int k / 100) \<and>
                  \<bar>of_int k / 100 - q\<bar> \<le> 1 / 200)) \<and>
   (mainResponseDelaySec t1 = Finite 2 \<and> followUpResponseDelaySec t1 = None \<and>
    mainResponseDelaySec t2 = Finite 5 \<and> followUpResponseDelaySec t2 = Some (Finite 1) \<longrightarrow>
      computeTimingSummary [t1, t2] =
        \<lparr> avgResponseDelaySec = fl (267 / 100), longPausesCount = 1, totalTurns = 3 \<rparr>) \<and>
   fl (267 / 100) = Finite (1503076375634903 / 562949953421312)"
proof (intro conjI impI allI)
  show "flatten_delays ts =
     concat (map (\<lambda>t. mainResponseDelaySec t #
                       (case followUpResponseDelaySec t of None \<Rightarrow> [] | Some d \<Rightarrow> [d])) ts)"
    unfolding flatten_delays_def
    by (rule arg_cong [where f = concat], rule map_cong)
       (simp_all add: turn_delays_def split: option.splits)
  show tt: "totalTurns (computeTimingSummary ts) = length (flatten_delays ts)"
    by (simp add: computeTimingSummary_def Let_def)
  then show "totalTurns (computeTimingSummary ts) =
     length ts + length (filter (\<lambda>t. followUpResponseDelaySec t \<noteq> None) ts)"
    by (simp add: length_flatten_delays)
  show "longPausesCount (computeTimingSummary ts) =
     length (filter (\<lambda>d. greater_than d 4) (flatten_delays ts))"
    by (simp add: computeTimingSummary_def Let_def)
  show "fl (267 / 100) = Finite (1503076375634903 / 562949953421312)"
    by (simp add: fl_hundredths)
next
  assume "flatten_delays ts = []"
  then show "avgResponseDelaySec (computeTimingSummary ts) = Finite 0"
    by (simp add: computeTimingSummary_def Let_def)
next
  assume "flatten_delays ts \<noteq> []"
  then show "avgResponseDelaySec (computeTimingSummary ts) =
        toFixed2 (num_div (foldl num_add (Finite 0) (flatten_delays ts))
                          (Finite (of_nat (length (flatten_delays ts)))))"
    by (simp add: computeTimingSummary_def Let_def)
next
  fix q
  assume h: "flatten_delays ts \<noteq> [] \<and>
        num_div (foldl num_add (Finite 0) (flatten_delays ts))
                (Finite (of_nat (length (flatten_delays ts)))) = Finite q \<and>
        \<bar>q\<bar> < 10 ^ 21"
  then have "avgResponseDelaySec (computeTimingSummary ts) = toFixed2 (Finite q)"
    by (simp add: computeTimingSummary_def Let_def)
  moreover from h have "\<bar>q\<bar> < 10 ^ 21" by simp
  ultimately show "\<exists>k::int. avgResponseDelaySec (computeTimingSummary ts) = fl (of_int k / 100) \<and>
                  \<bar>of_int k / 100 - q\<bar> \<le> 1 / 200"
    using toFixed2_rounds [of q] by simp
next
  assume "mainResponseDelaySec t1 = Finite 2 \<and> followUpResponseDelaySec t1 = None \<and>
    mainResponseDelaySec t2 = Finite 5 \<and> followUpResponseDelaySec t2 = Some (Finite 1)"
  then show "computeTimingSummary [t1, t2] =
        \<lparr> avgResponseDelaySec = fl (267 / 100), longPausesCount = 1, totalTurns = 3 \<rparr>"
    by (simp add: computeTimingSummary_def flatten_delays_def turn_delays_def Let_def
        fl_small_integers fl_8_3 floor_numeral_div_rat)
qed

theorem timing_summary_spec_witness:
  "flatten_delays [timing_turn1, timing_turn2] = [Finite 2, Finite 5, Finite 1] \<and>
   computeTimingSummary [timing_turn1, timing_turn2] =
     \<lparr> avgResponseDelaySec = fl (267 / 100), longPausesCount = 1, totalTurns = 3 \<rparr>"
proof -
  have d: "mainResponseDelaySec timing_turn1 = Finite 2 \<and>
           followUpResponseDelaySec timing_turn1 = None \<and>
           mainResponseDelaySec timing_turn2 = Finite 5 \<and>
           followUpResponseDelaySec timing_turn2 = Some (Finite 1)"
    by (simp add: timing_turn1_def timing_turn2_def)
  from timing_summary_spec [of "[timing_turn1, timing_turn2]" timing_turn1 timing_turn2] d
  have "computeTimingSummary [timing_turn1, timing_turn2] =
          \<lparr> avgResponseDelaySec = fl (267 / 100), longPausesCount = 1, totalTurns = 3 \<rparr>"
    and "flatten_delays [timing_turn1, timing_turn2] =
          concat (map (\<lambda>t. mainResponseDelaySec t #
                       (case followUpResponseDelaySec t of None \<Rightarrow> [] | Some d \<Rightarrow> [d]))
                    [timing_turn1, timing_turn2])"
    by blast+
  then show ?thesis by (simp add: timing_turn1_def timing_turn2_def)
qed

section \<open>Rejected submissions\<close>

lemma normalizeDelay_Inl:
  "normalizeDelay v = Inl e \<Longrightarrow>
     e = ValidationError ''responseDelaySec must be a non-negative number.''"
  by (simp add: normalizeDelay_def split: option.splits if_splits)

lemma normalizeDelay_Inl_iff:
  "(\<exists>e. normalizeDelay v = Inl e) \<longleftrightarrow>
     (\<exists>n. v = Some n \<and> (\<not> isFinite n \<or> less_than_zero n))"
  by (cases v) (simp_all add: normalizeDelay_def)

lemma truthy_simps: "truthy None = False" "truthy (Some s) = (s \<noteq> [])"
  by (simp_all add: truthy_def)

lemma resolveTranscript_invalid_iff:
  "(\<exists>e. resolveTranscript stt decode input = Inl e \<and> InvalidInput e) \<longleftrightarrow>
     \<not> (truthy (answerText input) \<and> truthy (map_option trim (answerText input))) \<and>
     (\<not> truthy (audioBase64 input) \<or>
      (\<exists>b. audioBase64 input = Some b \<and>
           (decode b = [] \<or>
            (\<exists>t. transcribe stt (decode b) (mimeTypeOrDefault (mimeType input)) = Some t \<and>
                 trim t = []))))"
proof (cases "answerText input")
  case None
  note t = this
  show ?thesis
  proof (cases "audioBase64 input")
    case None
    with t show ?thesis
      by (simp add: resolveTranscript_def truthy_simps InvalidInput_def)
  next
    case (Some b)
    with t show ?thesis
      by (cases "transcribe stt (decode b) (mimeTypeOrDefault (mimeType input))")
         (simp_all add: resolveTranscript_def truthy_simps InvalidInput_def Let_def)
  qed
next
  case (Some a)
  note t = this
  show ?thesis
  proof (cases "audioBase64 input")
    case None
    with t show ?thesis
      by (simp add: resolveTranscript_def truthy_simps InvalidInput_def)
  next
    case (Some b)
    with t show ?thesis
      by (cases "transcribe stt (decode b) (mimeTypeOrDefault (mimeType input))")
         (simp_all add: resolveTranscript_def truthy_simps InvalidInput_def Let_def)
  qed
qed

lemma submitMainAnswer_not_InvalidInput:
  "submitMainAnswer coach s tr d sessions = (Inl e, sessions') \<Longrightarrow> \<not> InvalidInput e"
  unfolding submitMainAnswer_def
  by (auto simp: Let_def InvalidInput_def
           split: if_splits option.splits sum.splits prod.splits
           dest: completeIfFinished_Inl)

lemma submitFollowUpAnswer_not_InvalidInput:
  "submitFollowUpAnswer coach s tr d sessions = (Inl e, sessions') \<Longrightarrow> \<not> InvalidInput e"
  unfolding submitFollowUpAnswer_def
  by (auto simp: Let_def InvalidInput_def
           split: if_splits option.splits sum.splits prod.splits
           dest: completeIfFinished_Inl)

text \<open>
  Claim C7: \<open>SubmitAnswer\<close> fails with \<open>NotFound\<close> when the session is not stored and
  with \<open>InvalidState\<close> when it is completed. Otherwise it fails with \<open>InvalidInput\<close>
  exactly when \<open>responseDelaySec\<close> is given and is negative or not finite, or there is
  no answer text (none that is non-blank, which is the source's test) and either no
  audio, or the decoded audio is empty, or the transcription is blank. An absent
  \<open>responseDelaySec\<close> is 0; a finite non-negative one is rounded to two decimals: below
  \<open>10 ^ 21\<close> it becomes the double nearest to a multiple of 1/100 that is at most 1/200
  away from it, and from \<open>10 ^ 21\<close> on it is kept (such a double is an integer). No
  failure changes the repository.
\<close>

theorem submit_answer_rejections:
  "(sessions (sessionId input) = None \<longrightarrow>
      SubmitAnswer_execute stt coach decode input sessions =
        (Inl (NotFoundError ''Session not found.''), sessions) \<and>
      NotFound (NotFoundError ''Session not found.'')) \<and>
   (\<forall>s. sessions (sessionId input) = Some s \<and> status s = completed \<longrightarrow>
      SubmitAnswer_execute stt coach decode input sessions =
        (Inl (ValidationError ''Session is already completed.''), sessions) \<and>
      InvalidState (ValidationError ''Session is already completed.'')) \<and>
   (\<forall>s. sessions (sessionId input) = Some s \<and> status s \<noteq> completed \<longrightarrow>
      ((\<exists>e. fst (SubmitAnswer_execute stt coach decode input sessions) = Inl e \<and>
            InvalidInput e) \<longleftrightarrow>
       (\<exists>n. responseDelaySec input = Some n \<and> (\<not> isFinite n \<or> less_than_zero n)) \<or>
       \<not> (truthy (answerText input) \<and> truthy (map_option trim (answerText input))) \<and>
       (\<not> truthy (audioBase64 input) \<or>
        (\<exists>b. audioBase64 input = Some b \<and>
             (decode b = [] \<or>
              (\<exists>t. transcribe stt (decode b) (mimeTypeOrDefault (mimeType input)) = Some t \<and>
                   trim t = [])))))) \<and>
   normalizeDelay None = Inr (Finite 0) \<and>
   (\<forall>x. 0 \<le> x \<longrightarrow>
      normalizeDelay (Some (Finite x)) = Inr (toFixed2 (Finite x)) \<and>
      (x < 10 ^ 21 \<longrightarrow>
         (\<exists>k::int. toFixed2 (Finite x) = fl (of_int k / 100) \<and>
                   \<bar>of_int k / 100 - x\<bar> \<le> 1 / 200)) \<and>
      (10 ^ 21 \<le> x \<longrightarrow> toFixed2 (Finite x) = Finite x)) \<and>
   (\<forall>e. fst (SubmitAnswer_execute stt coach decode input sessions) = Inl e \<longrightarrow>
      snd (SubmitAnswer_execute stt coach decode input sessions) = sessions)"
proof (intro conjI allI impI)
  assume "sessions (sessionId input) = None"
  then show "SubmitAnswer_execute stt coach decode input sessions =
               (Inl (NotFoundError ''Session not found.''), sessions)"
    by (simp add: SubmitAnswer_execute_def findById_def)
next
  show "NotFound (NotFoundError ''Session not found.'')" by (simp add: NotFound_def)
next
  fix s assume "sessions (sessionId input) = Some s \<and> status s = completed"
  then show "SubmitAnswer_execute stt coach decode input sessions =
               (Inl (ValidationError ''Session is already completed.''), sessions)"
    by (simp add: SubmitAnswer_execute_def findById_def)
next
  show "InvalidState (ValidationError ''Session is already completed.'')"
    by (simp add: InvalidState_def)
next
  show "normalizeDelay None = Inr (Finite 0)" by (simp add: normalizeDelay_def)
next
  fix x :: rat assume x: "0 \<le> x"
  then show "normalizeDelay (Some (Finite x)) = Inr (toFixed2 (Finite x))"
    by (simp add: normalizeDelay_def)
  {
    assume "x < 10 ^ 21"
    with x have "\<bar>x\<bar> < 10 ^ 21" by simp
    then show "\<exists>k::int. toFixed2 (Finite x) = fl (of_int k / 100) \<and>
                       \<bar>of_int k / 100 - x\<bar> \<le> 1 / 200"
      by (rule toFixed2_rounds)
  }
  {
    assume "10 ^ 21 \<le> x"
    with x show "toFixed2 (Finite x) = Finite x" by simp
  }
next
  fix e assume "fst (SubmitAnswer_execute stt coach decode input sessions) = Inl e"
  then have "SubmitAnswer_execute stt coach decode input sessions =
               (Inl e, snd (SubmitAnswer_execute stt coach decode input sessions))"
    by (simp add: prod_eq_iff)
  then show "snd (SubmitAnswer_execute stt coach decode input sessions) = sessions"
    by (rule SubmitAnswer_execute_error)
next
  fix s assume a: "sessions (sessionId input) = Some s \<and> status s \<noteq> completed"
  let ?D = "\<exists>n. responseDelaySec input = Some n \<and> (\<not> isFinite n \<or> less_than_zero n)"
  let ?T = "\<not> (truthy (answerText input) \<and> truthy (map_option trim (answerText input))) \<and>
       (\<not> truthy (audioBase64 input) \<or>
        (\<exists>b. audioBase64 input = Some b \<and>
             (decode b = [] \<or>
              (\<exists>t. transcribe stt (decode b) (mimeTypeOrDefault (mimeType input)) = Some t \<and>
                   trim t = []))))"
  let ?run = "SubmitAnswer_execute stt coach decode input sessions"
  show "(\<exists>e. fst ?run = Inl e \<and> InvalidInput e) \<longleftrightarrow> ?D \<or> ?T"
  proof (cases "normalizeDelay (responseDelaySec input)")
    case (Inl e)
    with a have "?run = (Inl e, sessions)"
      by (simp add: SubmitAnswer_execute_def findById_def)
    moreover from normalizeDelay_Inl [OF Inl] have "InvalidInput e"
      by (simp add: InvalidInput_def)
    moreover from Inl normalizeDelay_Inl_iff [of "responseDelaySec input"] have ?D by blast
    ultimately show ?thesis by simp
  next
    case (Inr d)
    with normalizeDelay_Inl_iff [of "responseDelaySec input"] have nD: "\<not> ?D" by simp
    show ?thesis
    proof (cases "resolveTranscript stt decode input")
      case (Inl e)
      with a Inr have run: "?run = (Inl e, sessions)"
        by (simp add: SubmitAnswer_execute_def findById_def)
      from Inl resolveTranscript_invalid_iff [of stt decode input]
      have "InvalidInput e \<longleftrightarrow> ?T" by simp
      moreover from run have "(\<exists>e'. fst ?run = Inl e' \<and> InvalidInput e') \<longleftrightarrow> InvalidInput e"
        by simp
      ultimately show ?thesis using nD by blast
    next
      case (Inr tr)
      with resolveTranscript_invalid_iff [of stt decode input] have nT: "\<not> ?T" by simp
      from a \<open>normalizeDelay (responseDelaySec input) = Inr d\<close> Inr
      have run: "?run = (if awaitingFollowUp s
                         then submitFollowUpAnswer coach s tr d sessions
                         else submitMainAnswer coach s tr d sessions)"
        by (simp add: SubmitAnswer_execute_def findById_def)
      have "\<not> (\<exists>e. fst ?run = Inl e \<and> InvalidInput e)"
      proof
        assume "\<exists>e. fst ?run = Inl e \<and> InvalidInput e"
        then obtain e where e: "fst ?run = Inl e" "InvalidInput e" by blast
        then have "?run = (Inl e, snd ?run)" by (simp add: prod_eq_iff)
        with run submitMainAnswer_not_InvalidInput submitFollowUpAnswer_not_InvalidInput
        have "\<not> InvalidInput e" by (auto split: if_splits)
        with e show False by simp
      qed
      with nD nT show ?thesis by blast
    qed
  qed
qed

theorem submit_answer_rejections_witness:
  "SubmitAnswer_execute sample_stt sample_coach sample_decode
     (text_answer ''Hello.'' None) Map.empty =
     (Inl (NotFoundError ''Session not found.''), Map.empty) \<and>
   SubmitAnswer_execute sample_stt sample_coach sample_decode
     (text_answer ''Hello.'' None) [js ''s-1'' \<mapsto> session2] =
     (Inl (ValidationError ''Session is already completed.''), [js ''s-1'' \<mapsto> session2]) \<and>
   (\<exists>e. fst (SubmitAnswer_execute sample_stt sample_coach sample_decode
               (text_answer ''Hello.'' (Some (Finite (- 1)))) [js ''s-1'' \<mapsto> session0]) = Inl e \<and>
        InvalidInput e) \<and>
   (\<exists>e. fst (SubmitAnswer_execute blank_stt sample_coach sample_decode
               audio_answer [js ''s-1'' \<mapsto> session0]) = Inl e \<and>
        InvalidInput e) \<and>
   \<not> (\<exists>e. fst (SubmitAnswer_execute sample_stt sample_coach sample_decode
               (text_answer ''I build APIs.'' (Some (Finite 2))) [js ''s-1'' \<mapsto> session0]) = Inl e \<and>
        InvalidInput e) \<and>
   (\<exists>e. fst (SubmitAnswer_execute sample_stt sample_coach sample_decode
               nbsp_answer [js ''s-1'' \<mapsto> session0]) = Inl e \<and>
        InvalidInput e) \<and>
   normalizeDelay (Some (Finite (79 / 64))) = Inr (fl (123 / 100))"
proof -
  note thm1 = submit_answer_rejections [of Map.empty "text_answer ''Hello.'' None"
      sample_stt sample_coach sample_decode]
  note thm2 = submit_answer_rejections [of "[js ''s-1'' \<mapsto> session2]" "text_answer ''Hello.'' None"
      sample_stt sample_coach sample_decode]
  note thm3 = submit_answer_rejections [of "[js ''s-1'' \<mapsto> session0]"
      "text_answer ''Hello.'' (Some (Finite (- 1)))" sample_stt sample_coach sample_decode]
  note thm4 = submit_answer_rejections [of "[js ''s-1'' \<mapsto> session0]" audio_answer
      blank_stt sample_coach sample_decode]
  note thm5 = submit_answer_rejections [of "[js ''s-1'' \<mapsto> session0]"
      "text_answer ''I build APIs.'' (Some (Finite 2))" sample_stt sample_coach sample_decode]
  have l2: "[js ''s-1'' \<mapsto> session2] (sessionId (text_answer ''Hello.'' None)) = Some session2 \<and>
            status session2 = completed"
    by (simp add: text_answer_def session2_def session0_def)
  have l0: "\<And>t d. [js ''s-1'' \<mapsto> session0] (sessionId (text_answer t d)) = Some session0 \<and>
            status session0 \<noteq> completed"
    by (simp add: text_answer_def session0_def)
  have l0a: "[js ''s-1'' \<mapsto> session0] (sessionId audio_answer) = Some session0 \<and>
            status session0 \<noteq> completed"
    by (simp add: audio_answer_def session0_def)
  have c1: "SubmitAnswer_execute sample_stt sample_coach sample_decode
     (text_answer ''Hello.'' None) Map.empty =
     (Inl (NotFoundError ''Session not found.''), Map.empty)"
    using thm1 by simp
  have c2: "SubmitAnswer_execute sample_stt sample_coach sample_decode
     (text_answer ''Hello.'' None) [js ''s-1'' \<mapsto> session2] =
     (Inl (ValidationError ''Session is already completed.''), [js ''s-1'' \<mapsto> session2])"
    using thm2 l2 by blast
  have d3: "\<exists>n. responseDelaySec (text_answer ''Hello.'' (Some (Finite (- 1)))) = Some n \<and>
                (\<not> isFinite n \<or> less_than_zero n)"
    by (simp add: text_answer_def)
  have c3: "\<exists>e. fst (SubmitAnswer_execute sample_stt sample_coach sample_decode
               (text_answer ''Hello.'' (Some (Finite (- 1)))) [js ''s-1'' \<mapsto> session0]) = Inl e \<and>
        InvalidInput e"
    using thm3 l0 d3 by blast
  have d4: "\<not> (truthy (answerText audio_answer) \<and>
                truthy (map_option trim (answerText audio_answer))) \<and>
            (\<exists>b. audioBase64 audio_answer = Some b \<and>
               (\<exists>t. transcribe blank_stt (sample_decode b)
                      (mimeTypeOrDefault (mimeType audio_answer)) = Some t \<and> trim t = []))"
    by (simp add: audio_answer_def truthy_def blank_stt_def trim_samples)
  have c4: "\<exists>e. fst (SubmitAnswer_execute blank_stt sample_coach sample_decode
               audio_answer [js ''s-1'' \<mapsto> session0]) = Inl e \<and> InvalidInput e"
    using thm4 l0a d4 by blast
  have d5: "\<not> (\<exists>n. responseDelaySec (text_answer ''I build APIs.'' (Some (Finite 2))) = Some n \<and>
                (\<not> isFinite n \<or> less_than_zero n)) \<and>
            truthy (answerText (text_answer ''I build APIs.'' (Some (Finite 2)))) \<and>
            truthy (map_option trim (answerText (text_answer ''I build APIs.'' (Some (Finite 2)))))"
    by (simp add: text_answer_def truthy_def trim_samples js_not_empty)
  have c5: "\<not> (\<exists>e. fst (SubmitAnswer_execute sample_stt sample_coach sample_decode
               (text_answer ''I build APIs.'' (Some (Finite 2))) [js ''s-1'' \<mapsto> session0]) = Inl e \<and>
        InvalidInput e)"
    using thm5 l0 d5 by blast
  have "(0::rat) \<le> 79 / 64" by simp
  with thm1 have "normalizeDelay (Some (Finite (79 / 64))) =
                    Inr (toFixed2 (Finite (79 / 64)))"
    by blast
  then have c6: "normalizeDelay (Some (Finite (79 / 64))) = Inr (fl (123 / 100))"
    by (simp add: floor_numeral_div_rat)
  note thm7 = submit_answer_rejections [of "[js ''s-1'' \<mapsto> session0]" nbsp_answer
      sample_stt sample_coach sample_decode]
  have l0n: "[js ''s-1'' \<mapsto> session0] (sessionId nbsp_answer) = Some session0 \<and>
            status session0 \<noteq> completed"
    by (simp add: nbsp_answer_def session0_def)
  have d7: "\<not> (truthy (answerText nbsp_answer) \<and>
                truthy (map_option trim (answerText nbsp_answer))) \<and>
            \<not> truthy (audioBase64 nbsp_answer)"
    by (simp add: nbsp_answer_def truthy_def trim_samples)
  have c7: "\<exists>e. fst (SubmitAnswer_execute sample_stt sample_coach sample_decode
               nbsp_answer [js ''s-1'' \<mapsto> session0]) = Inl e \<and> InvalidInput e"
    using thm7 l0n d7 by blast
  from c1 c2 c3 c4 c5 c6 c7 show ?thesis by blast
qed



end
